theory Spec2Isabelle
  imports Complex_Main
begin

section \<open>Strings\<close>

text \<open>
  Utterances are JavaScript strings. They are modelled as lists of 8-bit characters, so the
  model covers utterances whose code units lie in the Latin-1 range; the string primitives
  below are the JavaScript ones restricted to that range.
\<close>

text \<open>The capital letters of Latin-1 and their lower-case counterparts.\<close>

definition upperChars :: "char list" where
  "upperChars = ''ABCDEFGHIJKLMNOPQRSTUVWXYZ'' @
     [CHR 0xC0, CHR 0xC1, CHR 0xC2, CHR 0xC3, CHR 0xC4, CHR 0xC5, CHR 0xC6, CHR 0xC7,
      CHR 0xC8, CHR 0xC9, CHR 0xCA, CHR 0xCB, CHR 0xCC, CHR 0xCD, CHR 0xCE, CHR 0xCF,
      CHR 0xD0, CHR 0xD1, CHR 0xD2, CHR 0xD3, CHR 0xD4, CHR 0xD5, CHR 0xD6,
      CHR 0xD8, CHR 0xD9, CHR 0xDA, CHR 0xDB, CHR 0xDC, CHR 0xDD, CHR 0xDE]"

definition lowerChars :: "char list" where
  "lowerChars = ''abcdefghijklmnopqrstuvwxyz'' @
     [CHR 0xE0, CHR 0xE1, CHR 0xE2, CHR 0xE3, CHR 0xE4, CHR 0xE5, CHR 0xE6, CHR 0xE7,
      CHR 0xE8, CHR 0xE9, CHR 0xEA, CHR 0xEB, CHR 0xEC, CHR 0xED, CHR 0xEE, CHR 0xEF,
      CHR 0xF0, CHR 0xF1, CHR 0xF2, CHR 0xF3, CHR 0xF4, CHR 0xF5, CHR 0xF6,
      CHR 0xF8, CHR 0xF9, CHR 0xFA, CHR 0xFB, CHR 0xFC, CHR 0xFD, CHR 0xFE]"

definition lowerChar :: "char \<Rightarrow> char" where
  "lowerChar c = (case map_of (zip upperChars lowerChars) c of Some d \<Rightarrow> d | None \<Rightarrow> c)"

text \<open>\<open>String.prototype.toLowerCase\<close>.\<close>

definition toLowerCase :: "string \<Rightarrow> string" where
  "toLowerCase s = map lowerChar s"

text \<open>\<open>String.prototype.startsWith\<close> and \<open>String.prototype.includes\<close>.\<close>

fun startsWith :: "string \<Rightarrow> string \<Rightarrow> bool" where
  "startsWith s [] = True"
| "startsWith [] (p # ps) = False"
| "startsWith (c # cs) (p # ps) = (c = p \<and> startsWith cs ps)"

fun includesStr :: "string \<Rightarrow> string \<Rightarrow> bool" where
  "includesStr [] sub = (sub = [])"
| "includesStr (c # cs) sub = (startsWith (c # cs) sub \<or> includesStr cs sub)"

text \<open>\<open>s.split(':')[0]\<close>: the part of \<open>s\<close> before its first colon, all of \<open>s\<close> without one.\<close>

definition splitColonHead :: "string \<Rightarrow> string" where
  "splitColonHead s = takeWhile (\<lambda>c. c \<noteq> CHR '':'') s"

text \<open>The white space of \<open>\s\<close> and of \<open>parseInt\<close>, within Latin-1.\<close>

definition whiteSpace :: "char list" where
  "whiteSpace = [CHR 0x09, CHR 0x0A, CHR 0x0B, CHR 0x0C, CHR 0x0D, CHR '' '', CHR 0xA0]"

definition digitChars :: "char list" where
  "digitChars = ''0123456789''"

definition hexChars :: "(char \<times> int) list" where
  "hexChars = zip ''0123456789abcdefABCDEF''
                  [0, 1, 2, 3, 4, 5, 6, 7, 8, 9, 10, 11, 12, 13, 14, 15, 10, 11, 12, 13, 14, 15]"

text \<open>
  The value of the longest prefix of digits in the given radix, most significant first;
  \<open>None\<close> when there is no digit at all.
\<close>

fun digitsValue :: "int \<Rightarrow> int option \<Rightarrow> string \<Rightarrow> int option" where
  "digitsValue radix acc [] = acc"
| "digitsValue radix acc (c # cs) =
     (case map_of hexChars c of
        None \<Rightarrow> acc
      | Some d \<Rightarrow>
          if d < radix
          then digitsValue radix (Some (radix * (case acc of None \<Rightarrow> 0 | Some a \<Rightarrow> a) + d)) cs
          else acc)"

text \<open>
  \<open>parseInt(s)\<close> with no radix argument: leading white space is skipped, a sign is read, a
  prefix \<open>0x\<close> or \<open>0X\<close> selects radix sixteen, and the digits that follow are read up to the
  first character that is none. \<open>None\<close> is \<open>NaN\<close>. Integers are unbounded here; the code's
  numbers are doubles, exact up to \<open>2^53\<close>.
\<close>

definition parseInt :: "string \<Rightarrow> int option" where
  "parseInt s =
     (let t = dropWhile (\<lambda>c. c \<in> set whiteSpace) s;
          neg = startsWith t ''-'';
          u = (if startsWith t ''-'' \<or> startsWith t ''+'' then tl t else t);
          v = (if startsWith u ''0x'' \<or> startsWith u ''0X''
               then digitsValue 16 None (drop 2 u)
               else digitsValue 10 None u)
      in map_option (\<lambda>n. if neg then - n else n) v)"

text \<open>\<open>Number.prototype.toString\<close> on an integer, and \<open>padStart(2, '0')\<close>.\<close>

fun natToString :: "nat \<Rightarrow> string" where
  "natToString n =
     (if n < 10 then [digitChars ! n] else natToString (n div 10) @ [digitChars ! (n mod 10)])"

declare natToString.simps [simp del]

definition intToString :: "int \<Rightarrow> string" where
  "intToString i = (if i < 0 then CHR ''-'' # natToString (nat (- i)) else natToString (nat i))"

definition padStart2 :: "string \<Rightarrow> string" where
  "padStart2 s = replicate (2 - length s) CHR ''0'' @ s"

section \<open>Regular expressions\<close>

text \<open>
  The patterns of the source use character classes, sequence, alternation, the greedy
  optional \<open>?\<close> and the greedy star on a class. \<open>rxMatch r s\<close> lists, in the order in which a
  backtracking matcher tries them, the remainders of \<open>s\<close> after each way of matching \<open>r\<close> at
  the start of \<open>s\<close>; the first one is the match the engine reports.
\<close>

datatype rx =
    Cls "char list"
  | Seq rx rx
  | Alt rx rx
  | Opt rx
  | StarCls "char list"

fun starCls :: "char list \<Rightarrow> string \<Rightarrow> string list" where
  "starCls cs [] = [[]]"
| "starCls cs (c # t) = (if c \<in> set cs then starCls cs t @ [c # t] else [c # t])"

fun rxMatch :: "rx \<Rightarrow> string \<Rightarrow> string list" where
  "rxMatch (Cls cs) s = (case s of [] \<Rightarrow> [] | c # t \<Rightarrow> if c \<in> set cs then [t] else [])"
| "rxMatch (Seq a b) s = concat (map (rxMatch b) (rxMatch a s))"
| "rxMatch (Alt a b) s = rxMatch a s @ rxMatch b s"
| "rxMatch (Opt a) s = rxMatch a s @ [s]"
| "rxMatch (StarCls cs) s = starCls cs s"

text \<open>\<open>s.match(r)\<close> for a pattern without the global flag: element 0 of the leftmost match.\<close>

fun matchFirst :: "rx \<Rightarrow> string \<Rightarrow> string option" where
  "matchFirst r [] = (case rxMatch r [] of [] \<Rightarrow> None | rest # _ \<Rightarrow> Some [])"
| "matchFirst r (c # cs) =
     (case rxMatch r (c # cs) of
        [] \<Rightarrow> matchFirst r cs
      | rest # _ \<Rightarrow> Some (take (length (c # cs) - length rest) (c # cs)))"

definition digit :: rx where
  "digit = Cls digitChars"

definition digits12 :: rx where
  "digits12 = Seq digit (Opt digit)"

definition digits3 :: rx where
  "digits3 = Seq digit (Seq digit digit)"

definition digits4 :: rx where
  "digits4 = Seq digit digits3"

text \<open>\<open>[\/\-]\<close> and \<open>[-.\s]\<close>.\<close>

definition dateSep :: rx where
  "dateSep = Cls ''/-''"

definition phoneSep :: rx where
  "phoneSep = Cls (''-.'' @ whiteSpace)"

text \<open>\<open>/(\+?1?[-.\s]?)?\(?([0-9]{3})\)?[-.\s]?([0-9]{3})[-.\s]?([0-9]{4})/\<close>\<close>

definition phoneRegex :: rx where
  "phoneRegex =
     Seq (Opt (Seq (Opt (Cls ''+'')) (Seq (Opt (Cls ''1'')) (Opt phoneSep))))
    (Seq (Opt (Cls ''(''))
    (Seq digits3
    (Seq (Opt (Cls '')''))
    (Seq (Opt phoneSep)
    (Seq digits3
    (Seq (Opt phoneSep) digits4))))))"

text \<open>\<open>/(\d{1,2}[\/\-]\d{1,2}[\/\-]\d{4}|\d{4}[\/\-]\d{1,2}[\/\-]\d{1,2})/\<close>\<close>

definition dateRegex :: rx where
  "dateRegex =
     Alt (Seq digits12 (Seq dateSep (Seq digits12 (Seq dateSep digits4))))
         (Seq digits4 (Seq dateSep (Seq digits12 (Seq dateSep digits12))))"

text \<open>\<open>/(\d{1,2}:\d{2}|\d{1,2}\s*(am|pm))/i\<close>\<close>

definition timeRegex :: rx where
  "timeRegex =
     Alt (Seq digits12 (Seq (Cls '':'') (Seq digit digit)))
         (Seq digits12 (Seq (StarCls whiteSpace)
            (Alt (Seq (Cls ''aA'') (Cls ''mM'')) (Seq (Cls ''pP'') (Cls ''mM'')))))"

section \<open>Data model\<close>

text \<open>
  The step names are string literals in the source. \<open>Modification\<close>, \<open>VerificationFailed\<close> and
  \<open>Error\<close> only ever appear as the \<open>nextStep\<close> of a response.
\<close>

datatype step =
    Greeting | Verification | AppointmentType | ProviderSelection | DateSelection
  | TimeSelection | InsuranceVerification | Confirmation | Rescheduling | Cancellation
  | Completed | Modification | VerificationFailed | Error

datatype intent = Schedule | Reschedule | Cancel | General

datatype appt_type = ComprehensiveEvaluation | FollowUp | KetamineConsultation

datatype confirmation = Yes | No

datatype role = User | Agent

datatype exn = TypeError

fun apptTypeName :: "appt_type \<Rightarrow> string" where
  "apptTypeName ComprehensiveEvaluation = ''comprehensive_evaluation''"
| "apptTypeName FollowUp = ''follow_up''"
| "apptTypeName KetamineConsultation = ''ketamine_consultation''"

text \<open>What a template literal prints for a value that may be \<open>null\<close>.\<close>

definition nullable :: "string option \<Rightarrow> string" where
  "nullable v = (case v of None \<Rightarrow> ''null'' | Some s \<Rightarrow> s)"

record hours =
  hoursStart :: string
  hoursEnd :: string

text \<open>A weekly schedule maps a lower-case day name to the hours of that day.\<close>

type_synonym schedule = "string \<rightharpoonup> hours"

text \<open>A provider as \<open>getAvailableProviders\<close> builds it; its schedule may be \<open>undefined\<close>.\<close>

record provider =
  provId :: string
  provName :: string
  provSchedule :: "schedule option"

text \<open>
  The configuration read by the constructor. \<open>providerSchedules k\<close> is \<open>None\<close> when the
  parsed object has no entry \<open>k\<close> (or \<open>null\<close>), and otherwise holds the entry's \<open>schedule\<close>
  property, which may be missing in turn.
\<close>

record config =
  providerSchedules :: "string \<rightharpoonup> schedule option"
  lunchBreakStart :: string
  lunchBreakEnd :: string

text \<open>The configuration of a process whose environment sets none of the variables.\<close>

definition defaultConfig :: config where
  "defaultConfig =
     \<lparr>providerSchedules = Map.empty, lunchBreakStart = ''13:00'', lunchBreakEnd = ''14:00''\<rparr>"

text \<open>
  The date library: \<open>parseDate\<close> is what constructing a moment from a string yields (a day,
  or \<open>None\<close> for an invalid moment), \<open>dayName\<close> and \<open>ymd\<close> are the formats \<open>dddd\<close> and
  \<open>YYYY-MM-DD\<close> of a day. The library is not part of the repository and is a parameter.
\<close>

record dateLib =
  parseDate :: "string \<Rightarrow> int option"
  dayName :: "int \<Rightarrow> string"
  ymd :: "int \<Rightarrow> string"

text \<open>
  What one turn reads from its surroundings: the clock at each \<open>new Date()\<close> or
  \<open>Date.now()\<close> of the turn, the draw of \<open>Math.random()\<close>, and the current day.
\<close>

record env =
  tUser :: nat
  tUpdate :: nat
  tAppointment :: nat
  tAgent :: nat
  random :: rat
  today :: int

record client_info =
  clientId :: string
  clientName :: string
  clientPhone :: "string option"
  clientDateOfBirth :: "string option"

record insurance_result =
  insVerified :: bool
  insProvider :: string
  insCopay :: nat
  insDeductible :: nat
  insDeductibleMet :: bool

record slot =
  slotProvider :: "provider option"
  slotDate :: "string option"
  slotTime :: string
  slotType :: "appt_type option"

record history_entry =
  entryRole :: role
  entryContent :: string
  entryTimestamp :: nat

record conv_state =
  callId :: string
  step :: step
  clientVerified :: bool
  clientInfo :: "client_info option"
  insuranceVerified :: bool
  insuranceInfo :: "insurance_result option"
  appointmentType :: "appt_type option"
  preferredProvider :: "provider option"
  preferredDate :: "string option"
  preferredTime :: "string option"
  availableSlots :: "string list"
  selectedSlot :: "slot option"
  conversationHistory :: "history_entry list"
  startTime :: nat
  lastActivity :: nat

text \<open>
  The argument of \<open>updateConversationState\<close>: an object holding some of the record's
  properties. \<open>None\<close> is a property the object does not have.
\<close>

record updates =
  updCallId :: "string option"
  updStep :: "step option"
  updClientVerified :: "bool option"
  updClientInfo :: "client_info option option"
  updInsuranceVerified :: "bool option"
  updInsuranceInfo :: "insurance_result option option"
  updAppointmentType :: "appt_type option option"
  updPreferredProvider :: "provider option option"
  updPreferredDate :: "string option option"
  updPreferredTime :: "string option option"
  updAvailableSlots :: "string list option"
  updSelectedSlot :: "slot option option"
  updConversationHistory :: "history_entry list option"
  updStartTime :: "nat option"
  updLastActivity :: "nat option"

definition noUpdates :: updates where
  "noUpdates =
     \<lparr>updCallId = None, updStep = None, updClientVerified = None, updClientInfo = None,
      updInsuranceVerified = None, updInsuranceInfo = None, updAppointmentType = None,
      updPreferredProvider = None, updPreferredDate = None, updPreferredTime = None,
      updAvailableSlots = None, updSelectedSlot = None, updConversationHistory = None,
      updStartTime = None, updLastActivity = None\<rparr>"

record details =
  detType :: "appt_type option"
  detProvider :: string
  detDate :: "string option"
  detTime :: "string option"
  detCopay :: nat

text \<open>A response object; \<open>None\<close> is a property the object does not have.\<close>

record response =
  message :: string
  nextStep :: step
  options :: "string list option"
  requiresVerification :: "bool option"
  requiresTransfer :: "bool option"
  respClientInfo :: "client_info option"
  respAppointmentType :: "appt_type option"
  providers :: "provider list option"
  respProvider :: "provider option"
  availableDates :: "string list option"
  respDate :: "string option"
  availableTimes :: "string list option"
  respSelectedSlot :: "slot option"
  selfPayOption :: "bool option"
  respInsuranceInfo :: "insurance_result option"
  appointmentDetails :: "details option"
  appointmentId :: "string option"
  confirmationSent :: "bool option"
  respError :: "string option"

definition reply :: "string \<Rightarrow> step \<Rightarrow> response" where
  "reply m n =
     \<lparr>message = m, nextStep = n, options = None, requiresVerification = None,
      requiresTransfer = None, respClientInfo = None, respAppointmentType = None,
      providers = None, respProvider = None, availableDates = None, respDate = None,
      availableTimes = None, respSelectedSlot = None, selfPayOption = None,
      respInsuranceInfo = None, appointmentDetails = None, appointmentId = None,
      confirmationSent = None, respError = None\<rparr>"

section \<open>Conversation state store\<close>

type_synonym store = "string \<rightharpoonup> conv_state"

definition initializeConversation :: "store \<Rightarrow> string \<Rightarrow> nat \<Rightarrow> nat \<Rightarrow> conv_state \<times> store" where
  "initializeConversation st cid t0 t1 =
     (let state =
        \<lparr>callId = cid, step = Greeting, clientVerified = False, clientInfo = None,
         insuranceVerified = False, insuranceInfo = None, appointmentType = None,
         preferredProvider = None, preferredDate = None, preferredTime = None,
         availableSlots = [], selectedSlot = None, conversationHistory = [],
         startTime = t0, lastActivity = t1\<rparr>
      in (state, st(cid \<mapsto> state)))"

definition getConversationState :: "store \<Rightarrow> string \<Rightarrow> conv_state option" where
  "getConversationState st cid = st cid"

text \<open>\<open>Object.assign(state, updates)\<close>.\<close>

definition assign :: "conv_state \<Rightarrow> updates \<Rightarrow> conv_state" where
  "assign s u =
     \<lparr>callId = (case updCallId u of None \<Rightarrow> callId s | Some v \<Rightarrow> v),
      step = (case updStep u of None \<Rightarrow> step s | Some v \<Rightarrow> v),
      clientVerified = (case updClientVerified u of None \<Rightarrow> clientVerified s | Some v \<Rightarrow> v),
      clientInfo = (case updClientInfo u of None \<Rightarrow> clientInfo s | Some v \<Rightarrow> v),
      insuranceVerified =
        (case updInsuranceVerified u of None \<Rightarrow> insuranceVerified s | Some v \<Rightarrow> v),
      insuranceInfo = (case updInsuranceInfo u of None \<Rightarrow> insuranceInfo s | Some v \<Rightarrow> v),
      appointmentType = (case updAppointmentType u of None \<Rightarrow> appointmentType s | Some v \<Rightarrow> v),
      preferredProvider =
        (case updPreferredProvider u of None \<Rightarrow> preferredProvider s | Some v \<Rightarrow> v),
      preferredDate = (case updPreferredDate u of None \<Rightarrow> preferredDate s | Some v \<Rightarrow> v),
      preferredTime = (case updPreferredTime u of None \<Rightarrow> preferredTime s | Some v \<Rightarrow> v),
      availableSlots = (case updAvailableSlots u of None \<Rightarrow> availableSlots s | Some v \<Rightarrow> v),
      selectedSlot = (case updSelectedSlot u of None \<Rightarrow> selectedSlot s | Some v \<Rightarrow> v),
      conversationHistory =
        (case updConversationHistory u of None \<Rightarrow> conversationHistory s | Some v \<Rightarrow> v),
      startTime = (case updStartTime u of None \<Rightarrow> startTime s | Some v \<Rightarrow> v),
      lastActivity = (case updLastActivity u of None \<Rightarrow> lastActivity s | Some v \<Rightarrow> v)\<rparr>"

text \<open>The last argument is the clock read by \<open>new Date()\<close>.\<close>

definition updateConversationState :: "store \<Rightarrow> string \<Rightarrow> updates \<Rightarrow> nat \<Rightarrow> store" where
  "updateConversationState st cid u now =
     (case st cid of
        None \<Rightarrow> st
      | Some state \<Rightarrow> st(cid \<mapsto> (assign state u)\<lparr>lastActivity := now\<rparr>))"

definition addToHistory :: "store \<Rightarrow> string \<Rightarrow> role \<Rightarrow> string \<Rightarrow> nat \<Rightarrow> store" where
  "addToHistory st cid r c now =
     (case st cid of
        None \<Rightarrow> st
      | Some state \<Rightarrow>
          st(cid \<mapsto> state\<lparr>conversationHistory :=
               conversationHistory state @
                 [\<lparr>entryRole = r, entryContent = c, entryTimestamp = now\<rparr>]\<rparr>))"

definition cleanupConversation :: "store \<Rightarrow> string \<Rightarrow> store" where
  "cleanupConversation st cid = st(cid := None)"

section \<open>Field extractors\<close>

text \<open>What \<open>!v\<close> tests on a string that may be \<open>null\<close>: \<open>null\<close> and the empty string.\<close>

definition falsy :: "string option \<Rightarrow> bool" where
  "falsy v = (v = None \<or> v = Some [])"

definition detectIntent :: "string \<Rightarrow> intent" where
  "detectIntent userMessage =
     (let lowerMessage = toLowerCase userMessage in
      if includesStr lowerMessage ''schedule'' \<or> includesStr lowerMessage ''book''
         \<or> includesStr lowerMessage ''appointment'' then Schedule
      else if includesStr lowerMessage ''reschedule'' \<or> includesStr lowerMessage ''change''
      then Reschedule
      else if includesStr lowerMessage ''cancel'' then Cancel
      else General)"

record verification_data =
  phoneNumber :: "string option"
  dateOfBirth :: "string option"

definition extractVerificationData :: "string \<Rightarrow> verification_data" where
  "extractVerificationData userMessage =
     \<lparr>phoneNumber = matchFirst phoneRegex userMessage,
      dateOfBirth = matchFirst dateRegex userMessage\<rparr>"

record verification_result =
  verified :: bool
  verifiedClient :: client_info

definition simulateVerification :: "verification_data \<Rightarrow> verification_result" where
  "simulateVerification verificationData =
     \<lparr>verified = True,
      verifiedClient =
        \<lparr>clientId = ''client_001'', clientName = ''John Doe'',
         clientPhone = phoneNumber verificationData,
         clientDateOfBirth = dateOfBirth verificationData\<rparr>\<rparr>"

definition detectAppointmentType :: "string \<Rightarrow> appt_type option" where
  "detectAppointmentType userMessage =
     (let lowerMessage = toLowerCase userMessage in
      if includesStr lowerMessage ''comprehensive'' \<or> includesStr lowerMessage ''evaluation''
      then Some ComprehensiveEvaluation
      else if includesStr lowerMessage ''follow'' \<or> includesStr lowerMessage ''follow-up''
      then Some FollowUp
      else if includesStr lowerMessage ''ketamine'' then Some KetamineConsultation
      else None)"

definition detectDateSelection :: "dateLib \<Rightarrow> string \<Rightarrow> string option" where
  "detectDateSelection lib userMessage =
     (case matchFirst dateRegex userMessage of
        Some m \<Rightarrow>
          Some (case parseDate lib m of None \<Rightarrow> ''Invalid date'' | Some d \<Rightarrow> ymd lib d)
      | None \<Rightarrow> None)"

definition detectTimeSelection :: "string \<Rightarrow> string option" where
  "detectTimeSelection userMessage = matchFirst timeRegex userMessage"

definition acceptedProviders :: "string list" where
  "acceptedProviders = [''aetna'', ''blue cross blue shield'', ''cigna'', ''medicare'', ''tricare'']"

text \<open>The \<open>provider\<close> property of the object \<open>extractInsuranceInfo\<close> returns.\<close>

definition extractInsuranceInfo :: "string \<Rightarrow> string option" where
  "extractInsuranceInfo userMessage =
     find (\<lambda>provider. includesStr (toLowerCase userMessage) provider) acceptedProviders"

definition isAcceptedInsurance :: "string \<Rightarrow> bool" where
  "isAcceptedInsurance provider =
     list_ex (\<lambda>accepted. includesStr (toLowerCase provider) accepted) acceptedProviders"

definition simulateInsuranceVerification :: "string \<Rightarrow> insurance_result" where
  "simulateInsuranceVerification provider =
     \<lparr>insVerified = True, insProvider = provider, insCopay = 25, insDeductible = 1000,
      insDeductibleMet = False\<rparr>"

definition detectConfirmation :: "string \<Rightarrow> confirmation option" where
  "detectConfirmation userMessage =
     (let lowerMessage = toLowerCase userMessage in
      if includesStr lowerMessage ''yes'' \<or> includesStr lowerMessage ''correct''
         \<or> includesStr lowerMessage ''right'' then Some Yes
      else if includesStr lowerMessage ''no'' \<or> includesStr lowerMessage ''incorrect''
         \<or> includesStr lowerMessage ''wrong'' then Some No
      else None)"

record appointment_result =
  success :: bool
  createdId :: string
  createdMessage :: string
  createdError :: "string option"

definition createAppointment :: "nat \<Rightarrow> appointment_result" where
  "createAppointment now =
     \<lparr>success = True, createdId = ''apt_'' @ natToString now,
      createdMessage = ''Appointment created successfully'', createdError = None\<rparr>"

text \<open>
  \<open>Math.random() > 0.3\<close>, on the draw of the turn. The literal \<open>0.3\<close> is the double next
  below \<open>3/10\<close>, and no double lies between the two, so a draw that is a double exceeds the
  one exactly when it exceeds the other.
\<close>

definition checkTimeAvailability :: "env \<Rightarrow> bool" where
  "checkTimeAvailability e = (random e > 3 / 10)"

section \<open>Domain directory\<close>

definition getAvailableProviders :: "config \<Rightarrow> appt_type option \<Rightarrow> exn + provider list" where
  "getAvailableProviders cfg apptType =
     (case providerSchedules cfg ''charles_maddix'' of
        None \<Rightarrow> Inl TypeError
      | Some s1 \<Rightarrow>
          (case providerSchedules cfg ''ava_suleiman'' of
             None \<Rightarrow> Inl TypeError
           | Some s2 \<Rightarrow>
               (let ps =
                  [\<lparr>provId = ''charles_maddix'', provName = ''Charles Maddix'', provSchedule = s1\<rparr>,
                   \<lparr>provId = ''ava_suleiman'', provName = ''Ava Suleiman'', provSchedule = s2\<rparr>]
                in if apptType = Some FollowUp
                   then (case providerSchedules cfg ''dr_soto'' of
                           None \<Rightarrow> Inl TypeError
                         | Some s3 \<Rightarrow>
                             Inr (ps @ [\<lparr>provId = ''dr_soto'', provName = ''Dr. Soto'',
                                         provSchedule = s3\<rparr>]))
                   else Inr ps)))"

definition detectProviderSelection ::
  "config \<Rightarrow> string \<Rightarrow> appt_type option \<Rightarrow> exn + provider option" where
  "detectProviderSelection cfg userMessage apptType =
     (let lowerMessage = toLowerCase userMessage in
      case getAvailableProviders cfg apptType of
        Inl x \<Rightarrow> Inl x
      | Inr ps \<Rightarrow>
          Inr (find (\<lambda>p. includesStr lowerMessage (toLowerCase (provName p))
                        \<or> includesStr lowerMessage (toLowerCase (provId p))) ps))"

text \<open>The loop of \<open>getAvailableDates\<close>, from day offset \<open>i\<close> for \<open>n\<close> more iterations.\<close>

fun datesLoop :: "dateLib \<Rightarrow> schedule \<Rightarrow> int \<Rightarrow> int \<Rightarrow> nat \<Rightarrow> string list" where
  "datesLoop lib sch day i 0 = []"
| "datesLoop lib sch day i (Suc n) =
     (if sch (toLowerCase (dayName lib (day + i))) \<noteq> None
      then ymd lib (day + i) # datesLoop lib sch day (i + 1) n
      else datesLoop lib sch day (i + 1) n)"

definition getAvailableDates :: "dateLib \<Rightarrow> env \<Rightarrow> provider option \<Rightarrow> exn + string list" where
  "getAvailableDates lib e provider =
     (case provider of
        None \<Rightarrow> Inl TypeError
      | Some p \<Rightarrow>
          (case provSchedule p of
             None \<Rightarrow> Inl TypeError
           | Some sch \<Rightarrow> Inr (datesLoop lib sch (today e) 1 30)))"

definition timeString :: "int \<Rightarrow> int \<Rightarrow> string" where
  "timeString hour minute =
     padStart2 (intToString hour) @ '':'' @ padStart2 (intToString minute)"

function minuteLoop :: "int \<Rightarrow> int \<Rightarrow> string list" where
  "minuteLoop hour minute =
     (if minute < 60 then timeString hour minute # minuteLoop hour (minute + 15) else [])"
  by pat_completeness auto
termination
  by (relation "measure (\<lambda>(hour, minute). nat (60 - minute))") auto

declare minuteLoop.simps [simp del]

text \<open>A comparison with \<open>NaN\<close> is false.\<close>

definition inLunch :: "int option \<Rightarrow> int option \<Rightarrow> int \<Rightarrow> bool" where
  "inLunch lunchStart lunchEnd hour =
     ((case lunchStart of None \<Rightarrow> False | Some l \<Rightarrow> hour \<ge> l)
      \<and> (case lunchEnd of None \<Rightarrow> False | Some l \<Rightarrow> hour < l))"

function hourLoop :: "int option \<Rightarrow> int option \<Rightarrow> int \<Rightarrow> int \<Rightarrow> string list" where
  "hourLoop lunchStart lunchEnd hour endHour =
     (if hour < endHour
      then (if inLunch lunchStart lunchEnd hour
            then hourLoop lunchStart lunchEnd (hour + 1) endHour
            else minuteLoop hour 0 @ hourLoop lunchStart lunchEnd (hour + 1) endHour)
      else [])"
  by pat_completeness auto
termination
  by (relation "measure (\<lambda>(lunchStart, lunchEnd, hour, endHour). nat (endHour - hour))") auto

declare hourLoop.simps [simp del]

text \<open>
  \<open>moment(date).format('dddd')\<close>; the date may be \<open>null\<close>, and an invalid moment formats
  as \<open>Invalid date\<close>.
\<close>

definition formatDayName :: "dateLib \<Rightarrow> string option \<Rightarrow> string" where
  "formatDayName lib date =
     (case date of
        None \<Rightarrow> ''Invalid date''
      | Some d \<Rightarrow> (case parseDate lib d of None \<Rightarrow> ''Invalid date'' | Some n \<Rightarrow> dayName lib n))"

definition getAvailableTimes ::
  "config \<Rightarrow> dateLib \<Rightarrow> provider option \<Rightarrow> string option \<Rightarrow> exn + string list" where
  "getAvailableTimes cfg lib provider date =
     (let dayOfWeek = toLowerCase (formatDayName lib date) in
      case provider of
        None \<Rightarrow> Inl TypeError
      | Some p \<Rightarrow>
          (case provSchedule p of
             None \<Rightarrow> Inl TypeError
           | Some sch \<Rightarrow>
               (case sch dayOfWeek of
                  None \<Rightarrow> Inr []
                | Some h \<Rightarrow>
                    (let startHour = parseInt (splitColonHead (hoursStart h));
                         endHour = parseInt (splitColonHead (hoursEnd h));
                         lunchStart = parseInt (splitColonHead (lunchBreakStart cfg));
                         lunchEnd = parseInt (splitColonHead (lunchBreakEnd cfg))
                     in case (startHour, endHour) of
                          (Some a, Some b) \<Rightarrow> Inr (hourLoop lunchStart lunchEnd a b)
                        | _ \<Rightarrow> Inr []))))"

section \<open>Step handlers\<close>

text \<open>
  A handler returns the response, or the exception it throws, together with the store as
  the handler leaves it.
\<close>

type_synonym outcome = "(exn + response) \<times> store"

definition identityPrompt :: string where
  "identityPrompt = ''Could you please provide your phone number and date of birth?''"

definition menuOptions :: "string list" where
  "menuOptions = [''Schedule appointment'', ''Reschedule appointment'', ''Cancel appointment'']"

definition handleGreeting :: "env \<Rightarrow> store \<Rightarrow> string \<Rightarrow> string \<Rightarrow> outcome" where
  "handleGreeting e st cid userMessage =
     (let intent = detectIntent userMessage in
      if intent = Schedule then
        (Inr ((reply (''Hello! I'm Matt from The Practice psychiatric wellness clinic. I'd be happy to help you schedule an appointment. For your security and HIPAA compliance, I need to verify your identity. '' @ identityPrompt) Verification)
                \<lparr>requiresVerification := Some True\<rparr>),
         updateConversationState st cid (noUpdates\<lparr>updStep := Some Verification\<rparr>) (tUpdate e))
      else if intent = Reschedule then
        (Inr ((reply (''Hello! I'm Matt from The Practice. I can help you reschedule your appointment. For your security, I need to verify your identity first. '' @ identityPrompt) Verification)
                \<lparr>requiresVerification := Some True\<rparr>),
         updateConversationState st cid (noUpdates\<lparr>updStep := Some Verification\<rparr>) (tUpdate e))
      else if intent = Cancel then
        (Inr ((reply (''Hello! I'm Matt from The Practice. I can help you cancel your appointment. For your security, I need to verify your identity first. '' @ identityPrompt) Verification)
                \<lparr>requiresVerification := Some True\<rparr>),
         updateConversationState st cid (noUpdates\<lparr>updStep := Some Verification\<rparr>) (tUpdate e))
      else
        (Inr ((reply ''Hello! I'm Matt from The Practice psychiatric wellness clinic. How can I help you today? I can assist with scheduling, rescheduling, or canceling appointments.'' Greeting)
                \<lparr>options := Some menuOptions\<rparr>),
         st))"

definition handleVerification :: "env \<Rightarrow> store \<Rightarrow> string \<Rightarrow> string \<Rightarrow> outcome" where
  "handleVerification e st cid userMessage =
     (let verificationData = extractVerificationData userMessage in
      if falsy (phoneNumber verificationData) \<or> falsy (dateOfBirth verificationData) then
        (Inr ((reply ''I need both your phone number and date of birth to verify your identity. Please provide both pieces of information.'' Verification)
                \<lparr>requiresVerification := Some True\<rparr>),
         st)
      else
        (let verificationResult = simulateVerification verificationData in
         if verified verificationResult then
           (Inr ((reply (''Thank you, '' @ clientName (verifiedClient verificationResult) @ ''. I've verified your identity. What type of appointment would you like to schedule?'') AppointmentType)
                   \<lparr>respClientInfo := Some (verifiedClient verificationResult),
                    options := Some [''Comprehensive evaluation (60 minutes)'',
                                     ''Follow-up (15 minutes)'',
                                     ''Ketamine consultation (30 minutes)'']\<rparr>),
            updateConversationState st cid
              (noUpdates\<lparr>updClientVerified := Some True,
                         updClientInfo := Some (Some (verifiedClient verificationResult)),
                         updStep := Some AppointmentType\<rparr>) (tUpdate e))
         else
           (Inr ((reply ''I'm sorry, but I couldn't verify your identity with the information provided. For your security, I cannot access your information. Would you like me to transfer you to our front desk?'' VerificationFailed)
                   \<lparr>requiresTransfer := Some True\<rparr>),
            st)))"

definition handleAppointmentType :: "config \<Rightarrow> env \<Rightarrow> store \<Rightarrow> string \<Rightarrow> string \<Rightarrow> outcome" where
  "handleAppointmentType cfg e st cid userMessage =
     (case detectAppointmentType userMessage of
        None \<Rightarrow>
          (Inr ((reply ''I didn't catch that. What type of appointment would you like? You can choose from: Comprehensive evaluation (60 minutes), Follow-up (15 minutes), or Ketamine consultation (30 minutes).'' AppointmentType)
                  \<lparr>options := Some [''Comprehensive evaluation'', ''Follow-up'',
                                    ''Ketamine consultation'']\<rparr>),
           st)
      | Some ty \<Rightarrow>
          (let st' = updateConversationState st cid
                       (noUpdates\<lparr>updAppointmentType := Some (Some ty),
                                  updStep := Some ProviderSelection\<rparr>) (tUpdate e)
           in case getAvailableProviders cfg (Some ty) of
                Inl x \<Rightarrow> (Inl x, st')
              | Inr ps \<Rightarrow>
                  (Inr ((reply (''Great! You've selected a '' @ apptTypeName ty @ ''. Which provider would you prefer?'') ProviderSelection)
                          \<lparr>respAppointmentType := Some ty,
                           providers := Some ps,
                           options := Some (map provName ps)\<rparr>),
                   st')))"

text \<open>
  From here on the handlers read the record first. A handler called for a call without a
  record fails where it first dereferences the missing record.
\<close>

definition handleProviderSelection ::
  "config \<Rightarrow> dateLib \<Rightarrow> env \<Rightarrow> store \<Rightarrow> string \<Rightarrow> string \<Rightarrow> outcome" where
  "handleProviderSelection cfg lib e st cid userMessage =
     (case getConversationState st cid of
        None \<Rightarrow> (Inl TypeError, st)
      | Some state \<Rightarrow>
          (case detectProviderSelection cfg userMessage (appointmentType state) of
             Inl x \<Rightarrow> (Inl x, st)
           | Inr None \<Rightarrow>
               (case getAvailableProviders cfg (appointmentType state) of
                  Inl x \<Rightarrow> (Inl x, st)
                | Inr ps \<Rightarrow>
                    (Inr ((reply ''I didn't catch that. Which provider would you prefer?'' ProviderSelection)
                            \<lparr>providers := Some ps, options := Some (map provName ps)\<rparr>),
                     st))
           | Inr (Some selectedProvider) \<Rightarrow>
               (let st' = updateConversationState st cid
                            (noUpdates\<lparr>updPreferredProvider := Some (Some selectedProvider),
                                       updStep := Some DateSelection\<rparr>) (tUpdate e)
                in case getAvailableDates lib e (Some selectedProvider) of
                     Inl x \<Rightarrow> (Inl x, st')
                   | Inr ds \<Rightarrow>
                       (Inr ((reply (''Perfect! You've selected '' @ provName selectedProvider @ ''. What date would work best for you?'') DateSelection)
                               \<lparr>respProvider := Some selectedProvider,
                                availableDates := Some ds,
                                options := Some (take 5 ds)\<rparr>),
                        st'))))"

text \<open>
  The handlers below read \<open>state\<close> again after their store write. The record is one shared
  object, so they see the written record; the properties they read are none of those the
  write has just set.
\<close>

definition handleDateSelection ::
  "config \<Rightarrow> dateLib \<Rightarrow> env \<Rightarrow> store \<Rightarrow> string \<Rightarrow> string \<Rightarrow> outcome" where
  "handleDateSelection cfg lib e st cid userMessage =
     (case getConversationState st cid of
        None \<Rightarrow> (Inl TypeError, st)
      | Some state \<Rightarrow>
          (let selectedDate = detectDateSelection lib userMessage in
           if falsy selectedDate then
             (case getAvailableDates lib e (preferredProvider state) of
                Inl x \<Rightarrow> (Inl x, st)
              | Inr ds \<Rightarrow>
                  (Inr ((reply ''I didn't catch that date. What date would work best for you?'' DateSelection)
                          \<lparr>availableDates := Some ds, options := Some (take 5 ds)\<rparr>),
                   st))
           else
             (let st' = updateConversationState st cid
                          (noUpdates\<lparr>updPreferredDate := Some selectedDate,
                                     updStep := Some TimeSelection\<rparr>) (tUpdate e)
              in case getAvailableTimes cfg lib (preferredProvider state) selectedDate of
                   Inl x \<Rightarrow> (Inl x, st')
                 | Inr ts \<Rightarrow>
                     (Inr ((reply (''Great! You've selected '' @ nullable selectedDate @ ''. What time would work best for you?'') TimeSelection)
                             \<lparr>respDate := selectedDate,
                              availableTimes := Some ts,
                              options := Some (take 5 ts)\<rparr>),
                      st'))))"

definition handleTimeSelection ::
  "config \<Rightarrow> dateLib \<Rightarrow> env \<Rightarrow> store \<Rightarrow> string \<Rightarrow> string \<Rightarrow> outcome" where
  "handleTimeSelection cfg lib e st cid userMessage =
     (case getConversationState st cid of
        None \<Rightarrow> (Inl TypeError, st)
      | Some state \<Rightarrow>
          (let selectedTime = detectTimeSelection userMessage in
           if falsy selectedTime then
             (case getAvailableTimes cfg lib (preferredProvider state) (preferredDate state) of
                Inl x \<Rightarrow> (Inl x, st)
              | Inr ts \<Rightarrow>
                  (Inr ((reply ''I didn't catch that time. What time would work best for you?'' TimeSelection)
                          \<lparr>availableTimes := Some ts, options := Some (take 5 ts)\<rparr>),
                   st))
           else if \<not> checkTimeAvailability e then
             (case getAvailableTimes cfg lib (preferredProvider state) (preferredDate state) of
                Inl x \<Rightarrow> (Inl x, st)
              | Inr ts \<Rightarrow>
                  (Inr ((reply ''I'm sorry, that time slot is no longer available. Here are the available times:'' TimeSelection)
                          \<lparr>availableTimes := Some ts, options := Some (take 5 ts)\<rparr>),
                   st))
           else
             (Inr ((reply (''Perfect! You've selected '' @ nullable selectedTime @ '' on '' @ nullable (preferredDate state) @ ''. Now I need to verify your insurance information. What insurance provider do you have?'') InsuranceVerification)
                     \<lparr>respSelectedSlot :=
                        Some \<lparr>slotProvider = preferredProvider state,
                              slotDate = preferredDate state,
                              slotTime = nullable selectedTime,
                              slotType = appointmentType state\<rparr>\<rparr>),
              updateConversationState st cid
                (noUpdates\<lparr>updPreferredTime := Some selectedTime,
                           updStep := Some InsuranceVerification\<rparr>) (tUpdate e))))"

definition insurerOptions :: "string list" where
  "insurerOptions = [''Aetna'', ''Blue Cross Blue Shield'', ''Cigna'', ''Medicare'', ''Tricare'']"

definition handleInsuranceVerification :: "env \<Rightarrow> store \<Rightarrow> string \<Rightarrow> string \<Rightarrow> outcome" where
  "handleInsuranceVerification e st cid userMessage =
     (let provider = extractInsuranceInfo userMessage in
      if falsy provider then
        (Inr ((reply ''What insurance provider do you have? We accept Aetna, Blue Cross Blue Shield, Cigna, Medicare, and Tricare.'' InsuranceVerification)
                \<lparr>options := Some insurerOptions\<rparr>),
         st)
      else if \<not> isAcceptedInsurance (nullable provider) then
        (Inr ((reply (''I'm sorry, but we don't accept '' @ nullable provider @ ''. We accept Aetna, Blue Cross Blue Shield, Cigna, Medicare, and Tricare. Would you like to proceed with self-pay?'') InsuranceVerification)
                \<lparr>selfPayOption := Some True,
                 options := Some [''Yes, self-pay'', ''No, let me check my insurance'']\<rparr>),
         st)
      else
        (let verificationResult = simulateInsuranceVerification (nullable provider) in
         if insVerified verificationResult then
           (let st' = updateConversationState st cid
                        (noUpdates\<lparr>updInsuranceVerified := Some True,
                                   updInsuranceInfo := Some (Some verificationResult),
                                   updStep := Some Confirmation\<rparr>) (tUpdate e)
            in case getConversationState st cid of
                 None \<Rightarrow> (Inl TypeError, st')
               | Some state \<Rightarrow>
                   (case preferredProvider state of
                      None \<Rightarrow> (Inl TypeError, st')
                    | Some p \<Rightarrow>
                        (Inr ((reply (''Great! I've verified your '' @ nullable provider @ '' insurance. Your copay will be $'' @ natToString (insCopay verificationResult) @ ''. Let me confirm your appointment details: '' @ nullable (map_option apptTypeName (appointmentType state)) @ '' with '' @ provName p @ '' on '' @ nullable (preferredDate state) @ '' at '' @ nullable (preferredTime state) @ ''. Is this correct?'') Confirmation)
                                \<lparr>respInsuranceInfo := Some verificationResult,
                                 appointmentDetails :=
                                   Some \<lparr>detType = appointmentType state,
                                         detProvider = provName p,
                                         detDate = preferredDate state,
                                         detTime = preferredTime state,
                                         detCopay = insCopay verificationResult\<rparr>\<rparr>),
                         st')))
         else
           (Inr ((reply (''I'm having trouble verifying your '' @ nullable provider @ '' insurance. Would you like to proceed with self-pay, or would you prefer to call back later?'') InsuranceVerification)
                   \<lparr>selfPayOption := Some True,
                    options := Some [''Self-pay'', ''Call back later'']\<rparr>),
            st)))"

definition handleConfirmation :: "env \<Rightarrow> store \<Rightarrow> string \<Rightarrow> string \<Rightarrow> outcome" where
  "handleConfirmation e st cid userMessage =
     (case detectConfirmation userMessage of
        Some Yes \<Rightarrow>
          (let appointmentResult = createAppointment (tAppointment e) in
           if success appointmentResult then
             (Inr ((reply ''Perfect! Your appointment has been scheduled. You'll receive a confirmation email and text message. Is there anything else I can help you with?'' Completed)
                     \<lparr>appointmentId := Some (createdId appointmentResult),
                      confirmationSent := Some True\<rparr>),
              updateConversationState st cid (noUpdates\<lparr>updStep := Some Completed\<rparr>) (tUpdate e))
           else
             (Inr ((reply ''I'm sorry, there was an issue scheduling your appointment. Let me try again or would you prefer to speak with our front desk?'' Confirmation)
                     \<lparr>respError := createdError appointmentResult\<rparr>),
              st))
      | Some No \<Rightarrow>
          (Inr ((reply ''No problem! Let me know what you'd like to change about your appointment.'' Modification)
                  \<lparr>options := Some [''Change provider'', ''Change date'', ''Change time'',
                                    ''Change appointment type'']\<rparr>),
           st)
      | None \<Rightarrow>
          (Inr ((reply ''I didn't catch that. Is the appointment information correct?'' Confirmation)
                  \<lparr>options := Some [''Yes'', ''No'']\<rparr>),
           st))"

definition handleGeneralInquiry :: "store \<Rightarrow> outcome" where
  "handleGeneralInquiry st =
     (Inr ((reply ''I'm here to help with appointment scheduling. Would you like to schedule, reschedule, or cancel an appointment?'' Greeting)
             \<lparr>options := Some menuOptions\<rparr>),
      st)"

definition getErrorResponse :: response where
  "getErrorResponse =
     (reply ''I'm sorry, I'm having trouble processing your request. Let me transfer you to our front desk for assistance.'' Error)
       \<lparr>requiresTransfer := Some True\<rparr>"

section \<open>Dialogue driver\<close>

text \<open>
  The \<open>switch\<close> of \<open>processMessage\<close> on the step of the record. For the steps rescheduling
  and cancellation it calls \<open>this.handleRescheduling\<close> and \<open>this.handleCancellation\<close>, which
  the class does not define: the call throws a \<open>TypeError\<close>. Every other step falls to the
  default case.
\<close>

fun dispatch ::
  "config \<Rightarrow> dateLib \<Rightarrow> env \<Rightarrow> step \<Rightarrow> store \<Rightarrow> string \<Rightarrow> string \<Rightarrow> outcome" where
  "dispatch cfg lib e Greeting st cid m = handleGreeting e st cid m"
| "dispatch cfg lib e Verification st cid m = handleVerification e st cid m"
| "dispatch cfg lib e AppointmentType st cid m = handleAppointmentType cfg e st cid m"
| "dispatch cfg lib e ProviderSelection st cid m = handleProviderSelection cfg lib e st cid m"
| "dispatch cfg lib e DateSelection st cid m = handleDateSelection cfg lib e st cid m"
| "dispatch cfg lib e TimeSelection st cid m = handleTimeSelection cfg lib e st cid m"
| "dispatch cfg lib e InsuranceVerification st cid m = handleInsuranceVerification e st cid m"
| "dispatch cfg lib e Confirmation st cid m = handleConfirmation e st cid m"
| "dispatch cfg lib e Rescheduling st cid m = (Inl TypeError, st)"
| "dispatch cfg lib e Cancellation st cid m = (Inl TypeError, st)"
| "dispatch cfg lib e Completed st cid m = handleGeneralInquiry st"
| "dispatch cfg lib e Modification st cid m = handleGeneralInquiry st"
| "dispatch cfg lib e VerificationFailed st cid m = handleGeneralInquiry st"
| "dispatch cfg lib e Error st cid m = handleGeneralInquiry st"

definition processMessage ::
  "config \<Rightarrow> dateLib \<Rightarrow> env \<Rightarrow> store \<Rightarrow> string \<Rightarrow> string \<Rightarrow> response \<times> store" where
  "processMessage cfg lib e st cid userMessage =
     (case getConversationState st cid of
        None \<Rightarrow> (getErrorResponse, st)
      | Some state \<Rightarrow>
          (let st1 = addToHistory st cid User userMessage (tUser e) in
           case dispatch cfg lib e (step state) st1 cid userMessage of
             (Inl x, st2) \<Rightarrow> (getErrorResponse, st2)
           | (Inr r, st2) \<Rightarrow> (r, addToHistory st2 cid Agent (message r) (tAgent e))))"

section \<open>Runs\<close>

text \<open>
  What the server does with the flow: it starts a call, passes each utterance of a call to
  \<open>processMessage\<close>, and ends the call. \<open>turns\<close> is a sequence of utterances of one call,
  with the responses; \<open>run\<close> is any sequence of the three events, from the empty store.
\<close>

fun turns ::
  "config \<Rightarrow> dateLib \<Rightarrow> string \<Rightarrow> store \<Rightarrow> (string \<times> env) list \<Rightarrow> response list \<times> store" where
  "turns cfg lib cid st [] = ([], st)"
| "turns cfg lib cid st ((m, e) # rest) =
     (case processMessage cfg lib e st cid m of
        (r, st') \<Rightarrow> (case turns cfg lib cid st' rest of (rs, st'') \<Rightarrow> (r # rs, st'')))"

datatype event =
    CallStarted string nat nat
  | Utterance string string env
  | CallEnded string

fun applyEvent :: "config \<Rightarrow> dateLib \<Rightarrow> event \<Rightarrow> store \<Rightarrow> store" where
  "applyEvent cfg lib (CallStarted cid t0 t1) st = snd (initializeConversation st cid t0 t1)"
| "applyEvent cfg lib (Utterance cid m e) st = snd (processMessage cfg lib e st cid m)"
| "applyEvent cfg lib (CallEnded cid) st = cleanupConversation st cid"

fun runFrom :: "config \<Rightarrow> dateLib \<Rightarrow> store \<Rightarrow> event list \<Rightarrow> store" where
  "runFrom cfg lib st [] = st"
| "runFrom cfg lib st (ev # evs) = runFrom cfg lib (applyEvent cfg lib ev st) evs"

definition run :: "config \<Rightarrow> dateLib \<Rightarrow> event list \<Rightarrow> store" where
  "run cfg lib evs = runFrom cfg lib Map.empty evs"

section \<open>Documented configuration and a calendar\<close>

text \<open>The provider schedules of the README, with the default lunch break.\<close>

definition weekdaysFrom :: "string \<Rightarrow> schedule" where
  "weekdaysFrom s =
     [''monday'' \<mapsto> \<lparr>hoursStart = s, hoursEnd = ''18:00''\<rparr>,
      ''tuesday'' \<mapsto> \<lparr>hoursStart = s, hoursEnd = ''18:00''\<rparr>,
      ''wednesday'' \<mapsto> \<lparr>hoursStart = s, hoursEnd = ''18:00''\<rparr>,
      ''thursday'' \<mapsto> \<lparr>hoursStart = s, hoursEnd = ''18:00''\<rparr>]"

definition documentedConfig :: config where
  "documentedConfig =
     \<lparr>providerSchedules =
        [''charles_maddix'' \<mapsto> Some (weekdaysFrom ''10:30''),
         ''ava_suleiman'' \<mapsto>
            Some [''tuesday'' \<mapsto> \<lparr>hoursStart = ''10:30'', hoursEnd = ''18:00''\<rparr>],
         ''dr_soto'' \<mapsto> Some (weekdaysFrom ''16:00'')],
      lunchBreakStart = ''13:00'', lunchBreakEnd = ''14:00''\<rparr>"

text \<open>
  A date library for the examples, which knows the year 2024 only: a day is its offset from
  1 January 2024, a Monday, and a string is a date when it reads month, day, year or year,
  month, day, separated by \<open>/\<close> or \<open>-\<close>, and names a day of 2024.
\<close>

definition monthLengths :: "int list" where
  "monthLengths = [31, 29, 31, 30, 31, 30, 31, 31, 30, 31, 30, 31]"

fun monthAndDay :: "int list \<Rightarrow> int \<Rightarrow> int \<Rightarrow> (int \<times> int) option" where
  "monthAndDay [] m n = None"
| "monthAndDay (l # ls) m n = (if n < l then Some (m, n + 1) else monthAndDay ls (m + 1) (n - l))"

definition ymd2024 :: "int \<Rightarrow> string" where
  "ymd2024 n =
     (case (if n < 0 then None else monthAndDay monthLengths 1 n) of
        None \<Rightarrow> ''Invalid date''
      | Some (m, d) \<Rightarrow> ''2024-'' @ padStart2 (intToString m) @ ''-'' @ padStart2 (intToString d))"

definition dayNames :: "string list" where
  "dayNames = [''Monday'', ''Tuesday'', ''Wednesday'', ''Thursday'', ''Friday'', ''Saturday'',
               ''Sunday'']"

fun splitDate :: "string \<Rightarrow> string \<Rightarrow> string list" where
  "splitDate acc [] = [acc]"
| "splitDate acc (c # cs) =
     (if c = CHR ''/'' \<or> c = CHR ''-'' then acc # splitDate [] cs else splitDate (acc @ [c]) cs)"

definition parse2024 :: "string \<Rightarrow> int option" where
  "parse2024 s =
     (case map (digitsValue 10 None) (splitDate [] s) of
        [Some a, Some b, Some c] \<Rightarrow>
          (let (y, m, d) = (if length (hd (splitDate [] s)) = 4 then (a, b, c) else (c, a, b))
           in if y = 2024 \<and> 1 \<le> m \<and> m \<le> 12 \<and> 1 \<le> d \<and> d \<le> monthLengths ! nat (m - 1)
              then Some (sum_list (take (nat (m - 1)) monthLengths) + d - 1) else None)
      | _ \<Rightarrow> None)"

definition calendar :: dateLib where
  "calendar =
     \<lparr>parseDate = parse2024,
      dayName = (\<lambda>n. dayNames ! nat (n mod 7)),
      ymd = ymd2024\<rparr>"

text \<open>A turn at clock \<open>t\<close> on 10 January 2024 whose draw is \<open>1/2\<close>.\<close>

definition turnAt :: "nat \<Rightarrow> env" where
  "turnAt t =
     \<lparr>tUser = t, tUpdate = t + 1, tAppointment = t + 1, tAgent = t + 2, random = 1 / 2,
      today = 9\<rparr>"

text \<open>A call that books an appointment in eight turns.\<close>

definition booking :: "(string \<times> env) list" where
  "booking =
     [(''I want to schedule an appointment'', turnAt 2000),
      (''My phone is 904-123-4567 and DOB is 03/15/1985'', turnAt 3000),
      (''I need a follow-up'', turnAt 4000),
      (''I want to see Charles Maddix'', turnAt 5000),
      (''How about 01/15/2024?'', turnAt 6000),
      (''10:30 please'', turnAt 7000),
      (''I have Aetna'', turnAt 8000),
      (''Yes, that is correct'', turnAt 9000)]"

section \<open>What a handler writes, and the invariant of the flow\<close>

text \<open>
  The argument of the one call of \<open>updateConversationState\<close> in the handler of each step.
\<close>

inductive handlerWrites :: "step \<Rightarrow> updates \<Rightarrow> bool" where
  greeting: "handlerWrites Greeting (noUpdates\<lparr>updStep := Some Verification\<rparr>)"
| verification:
    "handlerWrites Verification
       (noUpdates\<lparr>updClientVerified := Some True, updClientInfo := Some (Some c),
                  updStep := Some AppointmentType\<rparr>)"
| appointmentType:
    "handlerWrites AppointmentType
       (noUpdates\<lparr>updAppointmentType := Some (Some ty), updStep := Some ProviderSelection\<rparr>)"
| providerSelection:
    "handlerWrites ProviderSelection
       (noUpdates\<lparr>updPreferredProvider := Some (Some p), updStep := Some DateSelection\<rparr>)"
| dateSelection:
    "\<not> falsy d \<Longrightarrow>
     handlerWrites DateSelection
       (noUpdates\<lparr>updPreferredDate := Some d, updStep := Some TimeSelection\<rparr>)"
| timeSelection:
    "\<not> falsy t \<Longrightarrow>
     handlerWrites TimeSelection
       (noUpdates\<lparr>updPreferredTime := Some t, updStep := Some InsuranceVerification\<rparr>)"
| insuranceVerification:
    "handlerWrites InsuranceVerification
       (noUpdates\<lparr>updInsuranceVerified := Some True, updInsuranceInfo := Some (Some i),
                  updStep := Some Confirmation\<rparr>)"
| confirmation: "handlerWrites Confirmation (noUpdates\<lparr>updStep := Some Completed\<rparr>)"

text \<open>How far along the flow a step is; the steps off the flow count as its start.\<close>

fun stepRank :: "step \<Rightarrow> nat" where
  "stepRank Greeting = 0"
| "stepRank Verification = 1"
| "stepRank AppointmentType = 2"
| "stepRank ProviderSelection = 3"
| "stepRank DateSelection = 4"
| "stepRank TimeSelection = 5"
| "stepRank InsuranceVerification = 6"
| "stepRank Confirmation = 7"
| "stepRank Completed = 8"
| "stepRank Rescheduling = 0"
| "stepRank Cancellation = 0"
| "stepRank Modification = 0"
| "stepRank VerificationFailed = 0"
| "stepRank Error = 0"

text \<open>
  What a record holds once it is at a step: the identity from appointment_type on, the
  provider from date_selection on, the date from time_selection on, the time from
  insurance_verification on, and a verified insurance at confirmation and completed only.
\<close>

definition flowInvariant :: "conv_state \<Rightarrow> bool" where
  "flowInvariant s =
     ((2 \<le> stepRank (step s) \<longrightarrow> clientVerified s)
      \<and> (4 \<le> stepRank (step s) \<longrightarrow> preferredProvider s \<noteq> None)
      \<and> (5 \<le> stepRank (step s) \<longrightarrow> \<not> falsy (preferredDate s))
      \<and> (6 \<le> stepRank (step s) \<longrightarrow> \<not> falsy (preferredTime s))
      \<and> (insuranceVerified s \<longrightarrow> 7 \<le> stepRank (step s)))"

definition storeInvariant :: "store \<Rightarrow> bool" where
  "storeInvariant st = (\<forall>c s. st c = Some s \<longrightarrow> flowInvariant s)"

text \<open>
  The booking call under a configuration: the store it starts from, and the responses and
  the store after its first \<open>n\<close> turns.
\<close>

definition bookingStart :: store where
  "bookingStart = snd (initializeConversation Map.empty ''call_001'' 1000 1000)"

definition replies :: "config \<Rightarrow> nat \<Rightarrow> response list" where
  "replies cfg n = fst (turns cfg calendar ''call_001'' bookingStart (take n booking))"

definition afterTurns :: "config \<Rightarrow> nat \<Rightarrow> store" where
  "afterTurns cfg n = snd (turns cfg calendar ''call_001'' bookingStart (take n booking))"

text \<open>The events of the booking call.\<close>

definition bookingEvents :: "event list" where
  "bookingEvents =
     CallStarted ''call_001'' 1000 1000 # map (\<lambda>(m, e). Utterance ''call_001'' m e) booking"

text \<open>The entries two by two: the utterance of a turn, then the message of its response.\<close>

definition transcript :: "((string \<times> env) \<times> response) list \<Rightarrow> history_entry list" where
  "transcript trs =
     concat (map (\<lambda>((m, e), r).
       [\<lparr>entryRole = User, entryContent = m, entryTimestamp = tUser e\<rparr>,
        \<lparr>entryRole = Agent, entryContent = message r, entryTimestamp = tAgent e\<rparr>]) trs)"

text \<open>The two entries a turn appends: the utterance, then the message of the response.\<close>

definition exchange :: "string \<Rightarrow> env \<Rightarrow> response \<Rightarrow> history_entry list" where
  "exchange m e r =
     [\<lparr>entryRole = User, entryContent = m, entryTimestamp = tUser e\<rparr>,
      \<lparr>entryRole = Agent, entryContent = message r, entryTimestamp = tAgent e\<rparr>]"

section \<open>The store operations, pointwise\<close>

lemma updateConversationState_apply:
  "updateConversationState st cid u t c =
     (if c = cid then map_option (\<lambda>s. (assign s u)\<lparr>lastActivity := t\<rparr>) (st cid) else st c)"
  by (simp add: updateConversationState_def split: option.splits)

lemma addToHistory_apply:
  "addToHistory st cid r m t c =
     (if c = cid
      then map_option (\<lambda>s. s\<lparr>conversationHistory := conversationHistory s @
             [\<lparr>entryRole = r, entryContent = m, entryTimestamp = t\<rparr>]\<rparr>) (st cid)
      else st c)"
  by (simp add: addToHistory_def split: option.splits)

lemma initializeConversation_apply:
  "snd (initializeConversation st cid t0 t1) cid = Some (fst (initializeConversation st cid t0 t1))"
  by (simp add: initializeConversation_def Let_def)

lemma initializeConversation_fields:
  "step (fst (initializeConversation st cid t0 t1)) = Greeting"
  "conversationHistory (fst (initializeConversation st cid t0 t1)) = []"
  "lastActivity (fst (initializeConversation st cid t0 t1)) = t1"
  by (simp_all add: initializeConversation_def Let_def)

section \<open>The handlers, by their effect\<close>

lemmas handler_defs =
  handleGreeting_def handleVerification_def handleAppointmentType_def
  handleProviderSelection_def handleDateSelection_def handleTimeSelection_def
  handleInsuranceVerification_def handleConfirmation_def handleGeneralInquiry_def

lemma dispatch_store:
  assumes "dispatch cfg lib e stp st cid m = (res, st')"
  shows "st' = st \<or> (\<exists>u. handlerWrites stp u \<and> st' = updateConversationState st cid u (tUpdate e))"
  using assms
  by (cases stp)
     (auto simp add: handler_defs Let_def getConversationState_def
        split: if_splits option.splits sum.splits confirmation.splits
        intro: handlerWrites.intros)

lemma dispatch_nextStep:
  assumes "dispatch cfg lib e stp st cid m = (Inr r, st')"
  shows "nextStep r \<noteq> Error"
  using assms
  by (cases stp)
     (auto simp add: handler_defs Let_def getConversationState_def reply_def
        split: if_splits option.splits sum.splits confirmation.splits)

lemma dispatch_throws_after_write:
  assumes "dispatch cfg lib e stp st cid m = (Inl x, st')" and "st' \<noteq> st"
  shows "stp \<in> {AppointmentType, ProviderSelection, DateSelection, InsuranceVerification}"
  using assms
  by (cases stp)
     (auto simp add: handler_defs Let_def getConversationState_def
        split: if_splits option.splits sum.splits confirmation.splits)

lemma handlerWrites_history:
  "handlerWrites stp u \<Longrightarrow> updConversationHistory u = None"
  by (induction rule: handlerWrites.induct) (simp_all add: noUpdates_def)

lemma handlerWrites_invariant:
  assumes "handlerWrites (step s) u" and "flowInvariant s"
  shows "flowInvariant ((assign s u)\<lparr>lastActivity := t\<rparr>)"
  using assms
  by (cases rule: handlerWrites.cases)
     (simp_all add: flowInvariant_def assign_def noUpdates_def)

lemma nextStep_getErrorResponse: "nextStep getErrorResponse = Error"
  by (simp add: getErrorResponse_def reply_def)

text \<open>
  One turn on an existing record, written out: the utterance is appended, the handler runs
  on the store so changed, and the message of its response is appended unless it threw.
\<close>

lemma processMessage_existing:
  assumes "st cid = Some s"
  shows "processMessage cfg lib e st cid m =
     (case dispatch cfg lib e (step s) (addToHistory st cid User m (tUser e)) cid m of
        (Inl x, st2) \<Rightarrow> (getErrorResponse, st2)
      | (Inr r, st2) \<Rightarrow> (r, addToHistory st2 cid Agent (message r) (tAgent e)))"
  using assms by (simp add: processMessage_def getConversationState_def)

text \<open>The response of a turn has nextStep error exactly when the handler threw.\<close>

lemma processMessage_error_iff:
  assumes "st cid = Some s"
  shows "nextStep (fst (processMessage cfg lib e st cid m)) = Error \<longleftrightarrow>
         isl (fst (dispatch cfg lib e (step s) (addToHistory st cid User m (tUser e)) cid m))"
  using assms
  by (auto simp add: processMessage_existing nextStep_getErrorResponse
        split: prod.splits sum.splits dest: dispatch_nextStep)

section \<open>Greeting\<close>

text \<open>
  C1. At step greeting, an utterance classified schedule, reschedule or cancel moves the
  stored record to verification and is answered with nextStep verification and
  requiresVerification true; an utterance classified general leaves the record at greeting.
\<close>

theorem greeting_intent_decides_step:
  assumes "st cid = Some state" and "step state = Greeting"
    and "processMessage cfg lib e st cid m = (r, st')"
  shows "(detectIntent m \<in> {Schedule, Reschedule, Cancel} \<longrightarrow>
            map_option step (st' cid) = Some Verification \<and> nextStep r = Verification
            \<and> requiresVerification r = Some True)
         \<and> (detectIntent m = General \<longrightarrow>
            map_option step (st' cid) = Some Greeting \<and> nextStep r = Greeting)"
  using assms
  by (cases "detectIntent m")
     (auto simp add: processMessage_def getConversationState_def handleGreeting_def
        addToHistory_apply updateConversationState_apply assign_def noUpdates_def reply_def)

theorem greeting_intent_decides_step_witness:
  "(let (r, st') = processMessage documentedConfig calendar (turnAt 2000)
                     (snd (initializeConversation Map.empty ''call_001'' 1000 1000))
                     ''call_001'' ''I want to schedule an appointment''
    in map_option step (st' ''call_001'') = Some Verification \<and> nextStep r = Verification
       \<and> requiresVerification r = Some True)
   \<and> (let (r, st') = processMessage documentedConfig calendar (turnAt 2000)
                     (snd (initializeConversation Map.empty ''call_001'' 1000 1000))
                     ''call_001'' ''Hello, how are you?''
    in map_option step (st' ''call_001'') = Some Greeting \<and> nextStep r = Greeting)"
proof -
  let ?st = "snd (initializeConversation Map.empty ''call_001'' 1000 1000)"
  have schedule: "detectIntent ''I want to schedule an appointment'' = Schedule"
    by code_simp
  have general: "detectIntent ''Hello, how are you?'' = General"
    by code_simp
  let ?p = "\<lambda>m. processMessage documentedConfig calendar (turnAt 2000) ?st ''call_001'' m"
  have p: "?p m = (fst (?p m), snd (?p m))" for m
    by simp
  show ?thesis
    using
      greeting_intent_decides_step [OF initializeConversation_apply
        initializeConversation_fields(1) p [of "''I want to schedule an appointment''"]]
      greeting_intent_decides_step [OF initializeConversation_apply
        initializeConversation_fields(1) p [of "''Hello, how are you?''"]]
      schedule general
    by (simp add: case_prod_unfold)
qed

section \<open>The activity stamp\<close>

lemma updateConversationState_refreshes:
  "st cid = Some s \<Longrightarrow>
   map_option lastActivity (updateConversationState st cid u now cid) = Some now"
  by (simp add: updateConversationState_apply)

lemma addToHistory_keeps_lastActivity:
  "st cid = Some s \<Longrightarrow>
   map_option lastActivity (addToHistory st cid r m now cid) = Some (lastActivity s)"
  by (simp add: addToHistory_apply)

text \<open>
  C6. \<open>updateConversationState\<close> refreshes \<open>lastActivity\<close>, whatever the update holds;
  \<open>addToHistory\<close> changes the record and leaves \<open>lastActivity\<close> as it was.
\<close>

theorem addToHistory_stale_lastActivity:
  "(let st = snd (initializeConversation Map.empty ''call_001'' 1000 1000);
        st' = addToHistory st ''call_001'' User ''Hello'' 2000
    in map_option (length \<circ> conversationHistory) (st ''call_001'') = Some 0
       \<and> map_option (length \<circ> conversationHistory) (st' ''call_001'') = Some 1
       \<and> map_option lastActivity (st' ''call_001'') = Some 1000)"
  by (simp add: initializeConversation_def addToHistory_apply Let_def)

section \<open>The invariant along a run\<close>

lemma storeInvariant_addToHistory:
  "storeInvariant st \<Longrightarrow> storeInvariant (addToHistory st cid r m t)"
  by (auto simp add: storeInvariant_def addToHistory_apply flowInvariant_def
        split: if_splits)

lemma storeInvariant_write:
  assumes "storeInvariant st" and "\<And>s. st cid = Some s \<Longrightarrow> handlerWrites (step s) u"
  shows "storeInvariant (updateConversationState st cid u t)"
  using assms
  by (auto simp add: storeInvariant_def updateConversationState_apply
        split: if_splits intro: handlerWrites_invariant)

lemma storeInvariant_processMessage:
  assumes "storeInvariant st"
  shows "storeInvariant (snd (processMessage cfg lib e st cid m))"
proof (cases "st cid")
  case None
  then show ?thesis
    using assms by (simp add: processMessage_def getConversationState_def)
next
  case (Some s)
  let ?st1 = "addToHistory st cid User m (tUser e)"
  obtain res st2 where d: "dispatch cfg lib e (step s) ?st1 cid m = (res, st2)"
    by (cases "dispatch cfg lib e (step s) ?st1 cid m")
  have inv1: "storeInvariant ?st1"
    using assms by (rule storeInvariant_addToHistory)
  have same_step: "step s1 = step s" if "?st1 cid = Some s1" for s1
    using that Some by (auto simp add: addToHistory_apply)
  have inv2: "storeInvariant st2"
    using dispatch_store [OF d] inv1 same_step
    by (auto intro: storeInvariant_write)
  show ?thesis
    using inv2 d Some
    by (cases res) (simp_all add: processMessage_existing storeInvariant_addToHistory)
qed

lemma storeInvariant_applyEvent:
  assumes "storeInvariant st"
  shows "storeInvariant (applyEvent cfg lib ev st)"
proof (cases ev)
  case (CallStarted cid t0 t1)
  then show ?thesis
    using assms
    by (auto simp add: storeInvariant_def initializeConversation_def Let_def
          flowInvariant_def split: if_splits)
next
  case (Utterance cid m e)
  then show ?thesis
    using assms by (simp add: storeInvariant_processMessage)
next
  case (CallEnded cid)
  then show ?thesis
    using assms by (auto simp add: storeInvariant_def cleanupConversation_def split: if_splits)
qed

lemma storeInvariant_runFrom:
  "storeInvariant st \<Longrightarrow> storeInvariant (runFrom cfg lib st evs)"
  by (induction evs arbitrary: st) (simp_all add: storeInvariant_applyEvent)

lemma storeInvariant_run: "storeInvariant (run cfg lib evs)"
  unfolding run_def by (rule storeInvariant_runFrom) (simp add: storeInvariant_def)

lemma runFrom_turns:
  "runFrom cfg lib st (map (\<lambda>(m, e). Utterance cid m e) ins) = snd (turns cfg lib cid st ins)"
  by (induction ins arbitrary: st) (auto split: prod.splits)

lemma take_booking: "take 8 booking = booking"
  by (simp add: booking_def)

lemma run_bookingEvents: "run cfg calendar bookingEvents = afterTurns cfg 8"
  by (simp only: run_def bookingEvents_def afterTurns_def bookingStart_def runFrom.simps
        applyEvent.simps runFrom_turns take_booking)

section \<open>The turns that advance\<close>

text \<open>
  For each step of the flow, what a turn does when the utterance is understood and nothing
  throws: the response names the next step, and the stored record is the old one with the
  handler's write and the two history entries of the turn.
\<close>

lemma extractInsuranceInfo_accepted:
  assumes "extractInsuranceInfo m = Some i"
  shows "i \<in> set acceptedProviders"
  using assms by (auto simp add: extractInsuranceInfo_def find_Some_iff)

lemma accepted_isAcceptedInsurance:
  assumes "i \<in> set acceptedProviders"
  shows "isAcceptedInsurance i \<and> i \<noteq> []"
proof -
  have "list_all (\<lambda>i. isAcceptedInsurance i \<and> i \<noteq> []) acceptedProviders"
    by code_simp
  then show ?thesis
    using assms by (simp add: list_all_iff)
qed

lemma getAvailableTimes_returns:
  assumes "provSchedule p = Some sch"
  shows "\<exists>ts. getAvailableTimes cfg lib (Some p) d = Inr ts"
  using assms
  by (auto simp add: getAvailableTimes_def Let_def split: option.splits)

lemma greeting_advances:
  assumes "st cid = Some s" and "step s = Greeting" and "detectIntent m \<noteq> General"
  shows "nextStep (fst (processMessage cfg lib e st cid m)) = Verification
    \<and> snd (processMessage cfg lib e st cid m) =
        st(cid \<mapsto> s\<lparr>step := Verification, lastActivity := tUpdate e,
             conversationHistory := conversationHistory s @
               exchange m e (fst (processMessage cfg lib e st cid m))\<rparr>)"
  using assms
  by (cases s; cases "detectIntent m")
     (simp_all add: processMessage_existing handleGreeting_def addToHistory_def
        updateConversationState_def assign_def noUpdates_def reply_def exchange_def)

lemma verification_advances:
  assumes "st cid = Some s" and "step s = Verification"
    and "\<not> falsy (matchFirst phoneRegex m)" and "\<not> falsy (matchFirst dateRegex m)"
  shows "nextStep (fst (processMessage cfg lib e st cid m)) = AppointmentType
    \<and> snd (processMessage cfg lib e st cid m) =
        st(cid \<mapsto> s\<lparr>step := AppointmentType, clientVerified := True,
             clientInfo := Some (verifiedClient (simulateVerification (extractVerificationData m))),
             lastActivity := tUpdate e,
             conversationHistory := conversationHistory s @
               exchange m e (fst (processMessage cfg lib e st cid m))\<rparr>)"
  using assms
  by (cases s) (simp add: processMessage_existing handleVerification_def addToHistory_def
        updateConversationState_def assign_def noUpdates_def reply_def exchange_def
        extractVerificationData_def simulateVerification_def Let_def)

lemma appointment_type_advances:
  assumes "st cid = Some s" and "step s = AppointmentType"
    and "detectAppointmentType m = Some ty" and "getAvailableProviders cfg (Some ty) = Inr ps"
  shows "nextStep (fst (processMessage cfg lib e st cid m)) = ProviderSelection
    \<and> snd (processMessage cfg lib e st cid m) =
        st(cid \<mapsto> s\<lparr>step := ProviderSelection, appointmentType := Some ty,
             lastActivity := tUpdate e,
             conversationHistory := conversationHistory s @
               exchange m e (fst (processMessage cfg lib e st cid m))\<rparr>)"
  using assms
  by (cases s) (simp add: processMessage_existing handleAppointmentType_def addToHistory_def
        updateConversationState_def assign_def noUpdates_def reply_def exchange_def Let_def)

lemma provider_selection_advances:
  assumes "st cid = Some s" and "step s = ProviderSelection"
    and "detectProviderSelection cfg m (appointmentType s) = Inr (Some p)"
    and "provSchedule p = Some sch"
  shows "nextStep (fst (processMessage cfg lib e st cid m)) = DateSelection
    \<and> snd (processMessage cfg lib e st cid m) =
        st(cid \<mapsto> s\<lparr>step := DateSelection, preferredProvider := Some p,
             lastActivity := tUpdate e,
             conversationHistory := conversationHistory s @
               exchange m e (fst (processMessage cfg lib e st cid m))\<rparr>)"
  using assms
  by (cases s) (simp add: processMessage_existing handleProviderSelection_def getConversationState_def
        getAvailableDates_def addToHistory_def
        updateConversationState_def assign_def noUpdates_def reply_def exchange_def Let_def)

lemma date_selection_advances:
  assumes "st cid = Some s" and "step s = DateSelection"
    and "\<not> falsy (detectDateSelection lib m)"
    and "preferredProvider s = Some p" and "provSchedule p = Some sch"
  shows "nextStep (fst (processMessage cfg lib e st cid m)) = TimeSelection
    \<and> snd (processMessage cfg lib e st cid m) =
        st(cid \<mapsto> s\<lparr>step := TimeSelection, preferredDate := detectDateSelection lib m,
             lastActivity := tUpdate e,
             conversationHistory := conversationHistory s @
               exchange m e (fst (processMessage cfg lib e st cid m))\<rparr>)"
proof -
  obtain ts where "getAvailableTimes cfg lib (Some p) (detectDateSelection lib m) = Inr ts"
    using getAvailableTimes_returns [OF assms(5)] by blast
  then show ?thesis
    using assms
    by (cases s) (simp add: processMessage_existing handleDateSelection_def getConversationState_def
          addToHistory_def updateConversationState_def assign_def noUpdates_def reply_def
          exchange_def Let_def)
qed

lemma time_selection_advances:
  assumes "st cid = Some s" and "step s = TimeSelection"
    and "\<not> falsy (detectTimeSelection m)" and "checkTimeAvailability e"
  shows "nextStep (fst (processMessage cfg lib e st cid m)) = InsuranceVerification
    \<and> snd (processMessage cfg lib e st cid m) =
        st(cid \<mapsto> s\<lparr>step := InsuranceVerification, preferredTime := detectTimeSelection m,
             lastActivity := tUpdate e,
             conversationHistory := conversationHistory s @
               exchange m e (fst (processMessage cfg lib e st cid m))\<rparr>)"
  using assms
  by (cases s) (simp add: processMessage_existing handleTimeSelection_def getConversationState_def
        addToHistory_def updateConversationState_def assign_def noUpdates_def reply_def
        exchange_def Let_def)

lemma insurance_verification_advances:
  assumes "st cid = Some s" and "step s = InsuranceVerification"
    and "extractInsuranceInfo m = Some i" and "preferredProvider s = Some p"
  shows "nextStep (fst (processMessage cfg lib e st cid m)) = Confirmation
    \<and> snd (processMessage cfg lib e st cid m) =
        st(cid \<mapsto> s\<lparr>step := Confirmation, insuranceVerified := True,
             insuranceInfo := Some (simulateInsuranceVerification i),
             lastActivity := tUpdate e,
             conversationHistory := conversationHistory s @
               exchange m e (fst (processMessage cfg lib e st cid m))\<rparr>)"
proof -
  have "isAcceptedInsurance i \<and> i \<noteq> []"
    using assms(3) by (intro accepted_isAcceptedInsurance extractInsuranceInfo_accepted)
  then show ?thesis
    using assms
    by (cases s) (simp add: processMessage_existing handleInsuranceVerification_def
          getConversationState_def simulateInsuranceVerification_def falsy_def nullable_def
          addToHistory_def updateConversationState_def assign_def noUpdates_def reply_def
          exchange_def Let_def)
qed

lemma confirmation_advances:
  assumes "st cid = Some s" and "step s = Confirmation" and "detectConfirmation m = Some Yes"
  shows "nextStep (fst (processMessage cfg lib e st cid m)) = Completed
    \<and> snd (processMessage cfg lib e st cid m) =
        st(cid \<mapsto> s\<lparr>step := Completed, lastActivity := tUpdate e,
             conversationHistory := conversationHistory s @
               exchange m e (fst (processMessage cfg lib e st cid m))\<rparr>)"
  using assms
  by (cases s) (simp add: processMessage_existing handleConfirmation_def createAppointment_def
        addToHistory_def updateConversationState_def assign_def noUpdates_def reply_def
        exchange_def Let_def)

section \<open>The booking call, turn by turn\<close>

lemma turns_snoc:
  "turns cfg lib cid st (ins @ [(m, e)]) =
     (case turns cfg lib cid st ins of
        (rs, st') \<Rightarrow>
          (case processMessage cfg lib e st' cid m of (r, st'') \<Rightarrow> (rs @ [r], st'')))"
  by (induction ins arbitrary: st) (auto split: prod.splits)

lemma booking_turn:
  assumes "k < length booking" and "booking ! k = (m, e)" and "n = Suc k"
  shows "afterTurns cfg n =
           snd (processMessage cfg calendar e (afterTurns cfg k) ''call_001'' m)"
    and "replies cfg n =
           replies cfg k @ [fst (processMessage cfg calendar e (afterTurns cfg k) ''call_001'' m)]"
  using assms
  by (simp_all add: afterTurns_def replies_def take_Suc_conv_app_nth turns_snoc
        split: prod.splits)

lemma booking_0:
  "list_all (\<lambda>r. nextStep r \<noteq> Error) (replies cfg 0)
   \<and> (\<exists>s. afterTurns cfg 0 ''call_001'' = Some s \<and> step s = Greeting
          \<and> selectedSlot s = None)"
  by (simp add: replies_def afterTurns_def bookingStart_def initializeConversation_def Let_def)

lemma booking_1:
  "list_all (\<lambda>r. nextStep r \<noteq> Error) (replies cfg 1)
   \<and> (\<exists>s. afterTurns cfg 1 ''call_001'' = Some s \<and> step s = Verification
          \<and> selectedSlot s = None)"
proof -
  obtain s where s: "afterTurns cfg 0 ''call_001'' = Some s" "step s = Greeting"
      "selectedSlot s = None"
    using booking_0 by blast
  have understood: "detectIntent ''I want to schedule an appointment'' \<noteq> General"
    by code_simp
  have turn: "booking ! 0 = (''I want to schedule an appointment'', turnAt 2000)"
      "0 < length booking" "1 = Suc 0"
    by (simp_all add: booking_def)
  show ?thesis
    using booking_0 [of cfg] booking_turn [OF turn(2) turn(1) turn(3), of cfg]
      greeting_advances [where st = "afterTurns cfg 0" and cid = "''call_001''" and cfg = cfg
        and lib = calendar and e = "turnAt 2000", OF s(1) s(2) understood] s(3)
    by simp
qed

lemma booking_2:
  "list_all (\<lambda>r. nextStep r \<noteq> Error) (replies cfg 2)
   \<and> (\<exists>s. afterTurns cfg 2 ''call_001'' = Some s \<and> step s = AppointmentType
          \<and> selectedSlot s = None)"
proof -
  obtain s where s: "afterTurns cfg 1 ''call_001'' = Some s" "step s = Verification"
      "selectedSlot s = None"
    using booking_1 by blast
  have understood:
      "\<not> falsy (matchFirst phoneRegex ''My phone is 904-123-4567 and DOB is 03/15/1985'')"
      "\<not> falsy (matchFirst dateRegex ''My phone is 904-123-4567 and DOB is 03/15/1985'')"
    by code_simp+
  have turn: "booking ! 1 = (''My phone is 904-123-4567 and DOB is 03/15/1985'', turnAt 3000)"
      "1 < length booking" "2 = Suc 1"
    by (simp_all add: booking_def)
  show ?thesis
    using booking_1 [of cfg] booking_turn [OF turn(2) turn(1) turn(3), of cfg]
      verification_advances [where st = "afterTurns cfg 1" and cid = "''call_001''" and cfg = cfg
        and lib = calendar and e = "turnAt 3000", OF s(1) s(2) understood] s(3)
    by simp
qed

lemma booking_3:
  "list_all (\<lambda>r. nextStep r \<noteq> Error) (replies documentedConfig 3)
   \<and> (\<exists>s. afterTurns documentedConfig 3 ''call_001'' = Some s \<and> step s = ProviderSelection
          \<and> appointmentType s = Some FollowUp \<and> selectedSlot s = None)"
proof -
  obtain s where s: "afterTurns documentedConfig 2 ''call_001'' = Some s"
      "step s = AppointmentType" "selectedSlot s = None"
    using booking_2 by blast
  have understood: "detectAppointmentType ''I need a follow-up'' = Some FollowUp"
    by code_simp
  obtain ps where ps: "getAvailableProviders documentedConfig (Some FollowUp) = Inr ps"
    by (simp add: getAvailableProviders_def documentedConfig_def)
  have turn: "booking ! 2 = (''I need a follow-up'', turnAt 4000)" "2 < length booking" "3 = Suc 2"
    by (simp_all add: booking_def)
  show ?thesis
    using booking_2 [of documentedConfig] booking_turn [OF turn(2) turn(1) turn(3), of documentedConfig]
      appointment_type_advances [where st = "afterTurns documentedConfig 2" and cid = "''call_001''" and cfg = documentedConfig
        and lib = calendar and e = "turnAt 4000", OF s(1) s(2) understood ps] s(3)
    by simp
qed

lemma booking_4:
  "list_all (\<lambda>r. nextStep r \<noteq> Error) (replies documentedConfig 4)
   \<and> (\<exists>s p sch. afterTurns documentedConfig 4 ''call_001'' = Some s \<and> step s = DateSelection
          \<and> preferredProvider s = Some p \<and> provSchedule p = Some sch
          \<and> selectedSlot s = None)"
proof -
  obtain s where s: "afterTurns documentedConfig 3 ''call_001'' = Some s"
      "step s = ProviderSelection" "appointmentType s = Some FollowUp" "selectedSlot s = None"
    using booking_3 by blast
  have named: "includesStr (toLowerCase ''I want to see Charles Maddix'')
                 (toLowerCase ''Charles Maddix'')"
    by code_simp
  have understood:
    "detectProviderSelection documentedConfig ''I want to see Charles Maddix''
       (appointmentType s) =
     Inr (Some \<lparr>provId = ''charles_maddix'', provName = ''Charles Maddix'',
                provSchedule = Some (weekdaysFrom ''10:30'')\<rparr>)"
    using named s(3)
    by (simp add: detectProviderSelection_def getAvailableProviders_def documentedConfig_def
          Let_def)
  have turn: "booking ! 3 = (''I want to see Charles Maddix'', turnAt 5000)"
      "3 < length booking" "4 = Suc 3"
    by (simp_all add: booking_def)
  show ?thesis
    using booking_3 booking_turn [OF turn(2) turn(1) turn(3), of documentedConfig]
      provider_selection_advances [where st = "afterTurns documentedConfig 3" and cid = "''call_001''" and cfg = documentedConfig
        and lib = calendar and e = "turnAt 5000" and sch = "weekdaysFrom ''10:30''", OF s(1) s(2) understood] s(4)
    by simp
qed

lemma booking_5:
  "list_all (\<lambda>r. nextStep r \<noteq> Error) (replies documentedConfig 5)
   \<and> (\<exists>s p sch. afterTurns documentedConfig 5 ''call_001'' = Some s \<and> step s = TimeSelection
          \<and> preferredProvider s = Some p \<and> provSchedule p = Some sch
          \<and> selectedSlot s = None)"
proof -
  obtain s p sch where s: "afterTurns documentedConfig 4 ''call_001'' = Some s"
      "step s = DateSelection" "preferredProvider s = Some p" "provSchedule p = Some sch"
      "selectedSlot s = None"
    using booking_4 by blast
  have understood: "\<not> falsy (detectDateSelection calendar ''How about 01/15/2024?'')"
    by code_simp
  have turn: "booking ! 4 = (''How about 01/15/2024?'', turnAt 6000)" "4 < length booking" "5 = Suc 4"
    by (simp_all add: booking_def)
  show ?thesis
    using booking_4 booking_turn [OF turn(2) turn(1) turn(3), of documentedConfig]
      date_selection_advances [where st = "afterTurns documentedConfig 4" and cid = "''call_001''" and cfg = documentedConfig
        and lib = calendar and e = "turnAt 6000", OF s(1) s(2) understood s(3) s(4)] s(3) s(4) s(5)
    by simp
qed

lemma booking_6:
  "list_all (\<lambda>r. nextStep r \<noteq> Error) (replies documentedConfig 6)
   \<and> (\<exists>s p. afterTurns documentedConfig 6 ''call_001'' = Some s
          \<and> step s = InsuranceVerification \<and> preferredProvider s = Some p)"
proof -
  obtain s p where s: "afterTurns documentedConfig 5 ''call_001'' = Some s"
      "step s = TimeSelection" "preferredProvider s = Some p"
    using booking_5 by blast
  have understood: "\<not> falsy (detectTimeSelection ''10:30 please'')"
    by code_simp
  have free: "checkTimeAvailability (turnAt 7000)"
    by (simp add: checkTimeAvailability_def turnAt_def)
  have turn: "booking ! 5 = (''10:30 please'', turnAt 7000)" "5 < length booking" "6 = Suc 5"
    by (simp_all add: booking_def)
  show ?thesis
    using booking_5 booking_turn [OF turn(2) turn(1) turn(3), of documentedConfig]
      time_selection_advances [where st = "afterTurns documentedConfig 5" and cid = "''call_001''" and cfg = documentedConfig
        and lib = calendar and e = "turnAt 7000", OF s(1) s(2) understood free] s(3)
    by simp
qed

lemma booking_7:
  "list_all (\<lambda>r. nextStep r \<noteq> Error) (replies documentedConfig 7)
   \<and> (\<exists>s. afterTurns documentedConfig 7 ''call_001'' = Some s \<and> step s = Confirmation
          \<and> insuranceVerified s)"
proof -
  obtain s p where s: "afterTurns documentedConfig 6 ''call_001'' = Some s"
      "step s = InsuranceVerification" "preferredProvider s = Some p"
    using booking_6 by blast
  have understood: "extractInsuranceInfo ''I have Aetna'' = Some ''aetna''"
    by code_simp
  have turn: "booking ! 6 = (''I have Aetna'', turnAt 8000)" "6 < length booking" "7 = Suc 6"
    by (simp_all add: booking_def)
  show ?thesis
    using booking_6 booking_turn [OF turn(2) turn(1) turn(3), of documentedConfig]
      insurance_verification_advances [where st = "afterTurns documentedConfig 6" and cid = "''call_001''" and cfg = documentedConfig
        and lib = calendar and e = "turnAt 8000", OF s(1) s(2) understood s(3)]
    by simp
qed

lemma booking_8:
  "list_all (\<lambda>r. nextStep r \<noteq> Error) (replies documentedConfig 8)
   \<and> (\<exists>s. afterTurns documentedConfig 8 ''call_001'' = Some s \<and> step s = Completed
          \<and> insuranceVerified s)"
proof -
  obtain s where s: "afterTurns documentedConfig 7 ''call_001'' = Some s"
      "step s = Confirmation" "insuranceVerified s"
    using booking_7 by blast
  have understood: "detectConfirmation ''Yes, that is correct'' = Some Yes"
    by code_simp
  have turn: "booking ! 7 = (''Yes, that is correct'', turnAt 9000)" "7 < length booking" "8 = Suc 7"
    by (simp_all add: booking_def)
  show ?thesis
    using booking_7 booking_turn [OF turn(2) turn(1) turn(3), of documentedConfig]
      confirmation_advances [where st = "afterTurns documentedConfig 7" and cid = "''call_001''" and cfg = documentedConfig
        and lib = calendar and e = "turnAt 9000", OF s(1) s(2) understood] s(3)
    by simp
qed

section \<open>History\<close>

lemma turn_history:
  assumes "st cid = Some s" and "nextStep (fst (processMessage cfg lib e st cid m)) \<noteq> Error"
  shows "\<exists>s'. snd (processMessage cfg lib e st cid m) cid = Some s'
    \<and> conversationHistory s' =
        conversationHistory s @ exchange m e (fst (processMessage cfg lib e st cid m))"
proof -
  let ?st1 = "addToHistory st cid User m (tUser e)"
  obtain res st2 where d: "dispatch cfg lib e (step s) ?st1 cid m = (res, st2)"
    by (cases "dispatch cfg lib e (step s) ?st1 cid m")
  obtain r where r: "res = Inr r"
    using assms d by (cases res) (simp_all add: processMessage_existing nextStep_getErrorResponse)
  have "\<exists>s2. st2 cid = Some s2 \<and> conversationHistory s2 =
          conversationHistory s @ [\<lparr>entryRole = User, entryContent = m, entryTimestamp = tUser e\<rparr>]"
    using dispatch_store [OF d] assms(1)
    by (auto simp add: addToHistory_apply updateConversationState_apply assign_def
          dest: handlerWrites_history)
  then show ?thesis
    using assms(1) d r
    by (auto simp add: processMessage_existing addToHistory_apply exchange_def)
qed

lemma transcript_Cons: "transcript (((m, e), r) # trs) = exchange m e r @ transcript trs"
  by (simp add: transcript_def exchange_def)

lemma turns_history:
  assumes "st cid = Some s" and "turns cfg lib cid st ins = (rs, st')"
    and "\<forall>r\<in>set rs. nextStep r \<noteq> Error"
  shows "length rs = length ins
    \<and> (\<exists>s'. st' cid = Some s'
          \<and> conversationHistory s' = conversationHistory s @ transcript (zip ins rs))"
  using assms
proof (induction ins arbitrary: st s rs)
  case Nil
  then show ?case by (simp add: transcript_def)
next
  case (Cons x ins)
  obtain m e where x: "x = (m, e)"
    by (cases x)
  let ?p = "processMessage cfg lib e st cid m"
  obtain rs' where rest: "turns cfg lib cid (snd ?p) ins = (rs', st')" and rs: "rs = fst ?p # rs'"
    using Cons.prems(2) x by (auto split: prod.splits)
  obtain s1 where s1: "snd ?p cid = Some s1"
      "conversationHistory s1 = conversationHistory s @ exchange m e (fst ?p)"
    using turn_history [where st = st and cid = cid and cfg = cfg and lib = lib and e = e
        and m = m, OF Cons.prems(1)] Cons.prems(3) rs
    by auto
  show ?case
    using Cons.IH [where st = "snd ?p", OF s1(1) rest] Cons.prems(3) rs s1(2) x
    by (auto simp add: transcript_Cons)
qed

lemma transcript_length: "length (transcript trs) = 2 * length trs"
  by (induction trs) (auto simp add: transcript_def)

lemma transcript_roles:
  "i < length (transcript trs) \<Longrightarrow>
   entryRole (transcript trs ! i) = (if even i then User else Agent)"
proof (induction trs arbitrary: i)
  case Nil
  then show ?case by (simp add: transcript_def)
next
  case (Cons t trs)
  obtain m e r where t: "t = ((m, e), r)"
    by (cases t) auto
  consider "i = 0" | "i = 1" | j where "i = Suc (Suc j)"
    by (cases i rule: nat.exhaust; cases "i - 1" rule: nat.exhaust) auto
  then show ?case
  proof cases
    case 1
    then show ?thesis by (simp add: t transcript_Cons exchange_def)
  next
    case 2
    then show ?thesis by (simp add: t transcript_Cons exchange_def)
  next
    case 3
    then show ?thesis
      using Cons.IH [of j] Cons.prems
      by (simp add: t transcript_Cons exchange_def transcript_length)
  qed
qed

section \<open>Providers and the configuration\<close>

text \<open>
  C10. \<open>getAvailableProviders\<close> throws exactly when the configuration lacks the entry of
  Charles Maddix or of Ava Suleiman, or, for a follow-up, that of Dr. Soto. With the default
  configuration it throws for every appointment type, and so does the handler of step
  appointment_type on every utterance that names a type; the driver then answers with the
  error response.
\<close>

theorem getAvailableProviders_needs_entries:
  "(getAvailableProviders cfg ty = Inl TypeError \<longleftrightarrow>
      providerSchedules cfg ''charles_maddix'' = None
      \<or> providerSchedules cfg ''ava_suleiman'' = None
      \<or> (ty = Some FollowUp \<and> providerSchedules cfg ''dr_soto'' = None))
   \<and> getAvailableProviders defaultConfig ty = Inl TypeError
   \<and> (detectAppointmentType m \<noteq> None \<longrightarrow>
        fst (handleAppointmentType defaultConfig e st cid m) = Inl TypeError)
   \<and> (detectAppointmentType m \<noteq> None \<longrightarrow> st cid = Some s \<longrightarrow> step s = AppointmentType \<longrightarrow>
        fst (processMessage defaultConfig lib e st cid m) = getErrorResponse)"
  by (auto simp add: getAvailableProviders_def defaultConfig_def handleAppointmentType_def
        processMessage_def getConversationState_def Let_def
      split: option.splits sum.splits)


theorem getAvailableProviders_needs_entries_witness:
  "getAvailableProviders defaultConfig (Some FollowUp) = Inl TypeError
   \<and> detectAppointmentType ''I need a follow-up'' = Some FollowUp
   \<and> map_option step (afterTurns defaultConfig 2 ''call_001'') = Some AppointmentType
   \<and> fst (handleAppointmentType defaultConfig (turnAt 4000) (afterTurns defaultConfig 2)
             ''call_001'' ''I need a follow-up'') = Inl TypeError
   \<and> fst (processMessage defaultConfig calendar (turnAt 4000) (afterTurns defaultConfig 2)
             ''call_001'' ''I need a follow-up'') = getErrorResponse"
proof -
  obtain s where s: "afterTurns defaultConfig 2 ''call_001'' = Some s" "step s = AppointmentType"
    using booking_2 by blast
  have named: "detectAppointmentType ''I need a follow-up'' = Some FollowUp"
    by code_simp
  show ?thesis
    using getAvailableProviders_needs_entries
            [of defaultConfig "Some FollowUp" "''I need a follow-up''" "turnAt 4000"
                "afterTurns defaultConfig 2" "''call_001''" s calendar]
          named s
    by simp
qed

section \<open>Throwing handlers\<close>

lemma appointment_type_throws:
  assumes "st cid = Some s" and "step s = AppointmentType"
    and "detectAppointmentType m = Some ty" and "getAvailableProviders cfg (Some ty) = Inl x"
  shows "processMessage cfg lib e st cid m =
     (getErrorResponse,
      st(cid \<mapsto> s\<lparr>step := ProviderSelection, appointmentType := Some ty,
           lastActivity := tUpdate e,
           conversationHistory := conversationHistory s @
             [\<lparr>entryRole = User, entryContent = m, entryTimestamp = tUser e\<rparr>]\<rparr>))"
  using assms
  by (cases s) (simp add: processMessage_existing handleAppointmentType_def addToHistory_def
        updateConversationState_def assign_def noUpdates_def Let_def)

text \<open>At the steps whose handler the class does not define, every turn throws.\<close>

lemma undefined_handler_throws:
  assumes "st cid = Some s" and "step s = Rescheduling \<or> step s = Cancellation"
  shows "processMessage cfg lib e st cid m =
     (getErrorResponse, addToHistory st cid User m (tUser e))"
  using assms by (auto simp add: processMessage_existing)

text \<open>
  C2 as the code has it. When the handler of a turn throws, the driver returns the fixed
  error response and appends no agent entry, and no other call's record changes. The stored
  record is the one from before the turn with the user entry that the driver appended
  before it ran the handler, and with the handler's store write when the handler threw
  after it. That write is: at appointment_type, the detected type and step
  provider_selection; at provider_selection, when a provider was detected, the provider
  and step date_selection; at date_selection, when a date was detected, the date and step
  time_selection; at insurance_verification, the verified insurance and step confirmation;
  each with lastActivity refreshed. At every other throw the user entry is the only change.
\<close>

theorem handler_throw_effect:
  assumes "st cid = Some s"
    and "dispatch cfg lib e (step s) (addToHistory st cid User m (tUser e)) cid m = (Inl x, st2)"
  shows "processMessage cfg lib e st cid m = (getErrorResponse, st2)
    \<and> (let h = s\<lparr>conversationHistory := conversationHistory s @
                  [\<lparr>entryRole = User, entryContent = m, entryTimestamp = tUser e\<rparr>]\<rparr>
        in st2 = st(cid \<mapsto>
             (case step s of
                AppointmentType \<Rightarrow>
                  h\<lparr>step := ProviderSelection, appointmentType := detectAppointmentType m,
                    lastActivity := tUpdate e\<rparr>
              | ProviderSelection \<Rightarrow>
                  (case detectProviderSelection cfg m (appointmentType s) of
                     Inr (Some p) \<Rightarrow>
                       h\<lparr>step := DateSelection, preferredProvider := Some p,
                         lastActivity := tUpdate e\<rparr>
                   | _ \<Rightarrow> h)
              | DateSelection \<Rightarrow>
                  (if falsy (detectDateSelection lib m) then h
                   else h\<lparr>step := TimeSelection, preferredDate := detectDateSelection lib m,
                          lastActivity := tUpdate e\<rparr>)
              | InsuranceVerification \<Rightarrow>
                  h\<lparr>step := Confirmation, insuranceVerified := True,
                    insuranceInfo :=
                      map_option simulateInsuranceVerification (extractInsuranceInfo m),
                    lastActivity := tUpdate e\<rparr>
              | _ \<Rightarrow> h)))"
proof -
  let ?h = "s\<lparr>conversationHistory := conversationHistory s @
              [\<lparr>entryRole = User, entryContent = m, entryTimestamp = tUser e\<rparr>]\<rparr>"
  have st1: "addToHistory st cid User m (tUser e) = st(cid \<mapsto> ?h)"
    using assms(1) by (simp add: addToHistory_def)
  have response: "processMessage cfg lib e st cid m = (getErrorResponse, st2)"
    using assms by (simp add: processMessage_existing)
  have thrown: "dispatch cfg lib e (step s) (st(cid \<mapsto> ?h)) cid m = (Inl x, st2)"
    using assms(2) st1 by simp
  have written: "st2 = st(cid \<mapsto>
      (case step s of
         AppointmentType \<Rightarrow>
           ?h\<lparr>step := ProviderSelection, appointmentType := detectAppointmentType m,
              lastActivity := tUpdate e\<rparr>
       | ProviderSelection \<Rightarrow>
           (case detectProviderSelection cfg m (appointmentType s) of
              Inr (Some p) \<Rightarrow>
                ?h\<lparr>step := DateSelection, preferredProvider := Some p,
                   lastActivity := tUpdate e\<rparr>
            | _ \<Rightarrow> ?h)
       | DateSelection \<Rightarrow>
           (if falsy (detectDateSelection lib m) then ?h
            else ?h\<lparr>step := TimeSelection, preferredDate := detectDateSelection lib m,
                    lastActivity := tUpdate e\<rparr>)
       | InsuranceVerification \<Rightarrow>
           ?h\<lparr>step := Confirmation, insuranceVerified := True,
              insuranceInfo := map_option simulateInsuranceVerification (extractInsuranceInfo m),
              lastActivity := tUpdate e\<rparr>
       | _ \<Rightarrow> ?h))"
  proof (cases "step s")
    case Greeting
    then show ?thesis
      using thrown by (simp add: handler_defs Let_def split: if_splits)
  next
    case Verification
    then show ?thesis
      using thrown by (simp add: handler_defs Let_def split: if_splits)
  next
    case AppointmentType
    then show ?thesis
      using thrown
      by (cases s)
         (auto simp add: handleAppointmentType_def updateConversationState_def assign_def
            noUpdates_def Let_def
          split: option.splits sum.splits)
  next
    case ProviderSelection
    then show ?thesis
      using thrown
      by (cases s)
         (auto simp add: handleProviderSelection_def getConversationState_def
            updateConversationState_def assign_def noUpdates_def Let_def
          split: option.splits sum.splits)
  next
    case DateSelection
    then show ?thesis
      using thrown
      by (cases s)
         (auto simp add: handleDateSelection_def getConversationState_def
            updateConversationState_def assign_def noUpdates_def Let_def
          split: option.splits sum.splits if_splits)
  next
    case TimeSelection
    then show ?thesis
      using thrown
      by (auto simp add: handleTimeSelection_def getConversationState_def Let_def
          split: option.splits sum.splits if_splits)
  next
    case InsuranceVerification
    show ?thesis
    proof (cases "extractInsuranceInfo m")
      case None
      then show ?thesis
        using thrown InsuranceVerification
        by (simp add: handleInsuranceVerification_def falsy_def)
    next
      case (Some i)
      then have "isAcceptedInsurance i \<and> i \<noteq> []"
        by (intro accepted_isAcceptedInsurance extractInsuranceInfo_accepted)
      then show ?thesis
        using thrown InsuranceVerification Some
        by (cases s)
           (auto simp add: handleInsuranceVerification_def getConversationState_def
              falsy_def nullable_def simulateInsuranceVerification_def
              updateConversationState_def assign_def noUpdates_def Let_def
            split: option.splits)
    qed
  next
    case Confirmation
    then show ?thesis
      using thrown
      by (simp add: handleConfirmation_def createAppointment_def Let_def
          split: option.splits confirmation.splits)
  next
    case Rescheduling
    then show ?thesis
      using thrown by simp
  next
    case Cancellation
    then show ?thesis
      using thrown by simp
  next
    case Completed
    then show ?thesis
      using thrown by (simp add: handleGeneralInquiry_def)
  next
    case Modification
    then show ?thesis
      using thrown by (simp add: handleGeneralInquiry_def)
  next
    case VerificationFailed
    then show ?thesis
      using thrown by (simp add: handleGeneralInquiry_def)
  next
    case Error
    then show ?thesis
      using thrown by (simp add: handleGeneralInquiry_def)
  qed
  show ?thesis
    using response written by (simp add: Let_def)
qed

theorem handler_throw_effect_witness:
  "(\<exists>s. afterTurns defaultConfig 2 ''call_001'' = Some s
      \<and> step s = AppointmentType
      \<and> processMessage defaultConfig calendar (turnAt 4000) (afterTurns defaultConfig 2)
           ''call_001'' ''I need a follow-up'' =
         (getErrorResponse,
          (afterTurns defaultConfig 2)
            (''call_001'' \<mapsto>
               s\<lparr>conversationHistory := conversationHistory s @
                    [\<lparr>entryRole = User, entryContent = ''I need a follow-up'',
                      entryTimestamp = tUser (turnAt 4000)\<rparr>],
                  step := ProviderSelection, appointmentType := Some FollowUp,
                  lastActivity := tUpdate (turnAt 4000)\<rparr>)))
   \<and> (\<exists>s. updateConversationState bookingStart ''call_001''
               (noUpdates\<lparr>updStep := Some Rescheduling\<rparr>) 1500 ''call_001'' = Some s
      \<and> step s = Rescheduling
      \<and> processMessage defaultConfig calendar (turnAt 2000)
           (updateConversationState bookingStart ''call_001''
              (noUpdates\<lparr>updStep := Some Rescheduling\<rparr>) 1500)
           ''call_001'' ''Hello'' =
         (getErrorResponse,
          (updateConversationState bookingStart ''call_001''
             (noUpdates\<lparr>updStep := Some Rescheduling\<rparr>) 1500)
            (''call_001'' \<mapsto>
               s\<lparr>conversationHistory := conversationHistory s @
                    [\<lparr>entryRole = User, entryContent = ''Hello'',
                      entryTimestamp = tUser (turnAt 2000)\<rparr>]\<rparr>)))"
proof -
  obtain s where s: "afterTurns defaultConfig 2 ''call_001'' = Some s" "step s = AppointmentType"
    using booking_2 by blast
  have named: "detectAppointmentType ''I need a follow-up'' = Some FollowUp"
    by code_simp
  have missing: "getAvailableProviders defaultConfig (Some FollowUp) = Inl TypeError"
    by (simp add: getAvailableProviders_def defaultConfig_def)
  obtain st2 where d:
    "dispatch defaultConfig calendar (turnAt 4000) (step s)
       (addToHistory (afterTurns defaultConfig 2) ''call_001'' User ''I need a follow-up''
          (tUser (turnAt 4000)))
       ''call_001'' ''I need a follow-up'' = (Inl TypeError, st2)"
    using s(2) named missing by (simp add: handleAppointmentType_def Let_def)
  have follow_up: "\<exists>s. afterTurns defaultConfig 2 ''call_001'' = Some s
      \<and> step s = AppointmentType
      \<and> processMessage defaultConfig calendar (turnAt 4000) (afterTurns defaultConfig 2)
           ''call_001'' ''I need a follow-up'' =
         (getErrorResponse,
          (afterTurns defaultConfig 2)
            (''call_001'' \<mapsto>
               s\<lparr>conversationHistory := conversationHistory s @
                    [\<lparr>entryRole = User, entryContent = ''I need a follow-up'',
                      entryTimestamp = tUser (turnAt 4000)\<rparr>],
                  step := ProviderSelection, appointmentType := Some FollowUp,
                  lastActivity := tUpdate (turnAt 4000)\<rparr>))"
    using handler_throw_effect [where st = "afterTurns defaultConfig 2" and cid = "''call_001''",
        OF s(1) d] s named
    by (simp add: Let_def)
  let ?st = "updateConversationState bookingStart ''call_001''
               (noUpdates\<lparr>updStep := Some Rescheduling\<rparr>) 1500"
  obtain r where r: "?st ''call_001'' = Some r" "step r = Rescheduling"
    by (simp add: updateConversationState_apply bookingStart_def initializeConversation_apply
          assign_def noUpdates_def)
  have d': "dispatch defaultConfig calendar (turnAt 2000) (step r)
       (addToHistory ?st ''call_001'' User ''Hello'' (tUser (turnAt 2000)))
       ''call_001'' ''Hello'' =
     (Inl TypeError, addToHistory ?st ''call_001'' User ''Hello'' (tUser (turnAt 2000)))"
    using r(2) by simp
  have undefined_step: "\<exists>s. ?st ''call_001'' = Some s
      \<and> step s = Rescheduling
      \<and> processMessage defaultConfig calendar (turnAt 2000) ?st ''call_001'' ''Hello'' =
         (getErrorResponse,
          ?st(''call_001'' \<mapsto>
               s\<lparr>conversationHistory := conversationHistory s @
                    [\<lparr>entryRole = User, entryContent = ''Hello'',
                      entryTimestamp = tUser (turnAt 2000)\<rparr>]\<rparr>))"
    using handler_throw_effect [where st = ?st and cid = "''call_001''", OF r(1) d'] r
    by (simp add: Let_def)
  show ?thesis
    using follow_up undefined_step by blast
qed

text \<open>
  C2 as stated fails: with the default configuration, the record of the booking call at
  step appointment_type and the utterance \<open>I need a follow-up\<close>, the handler writes the
  type and step provider_selection and then throws in \<open>getAvailableProviders\<close>. The driver
  answers with the error response, and the stored record has changed: its step and its
  history are not what they were.
\<close>

theorem handler_throw_changes_record:
  "(let st = afterTurns defaultConfig 2;
        (r, st') = processMessage defaultConfig calendar (turnAt 4000) st ''call_001''
                     ''I need a follow-up''
    in r = getErrorResponse
       \<and> map_option step (st ''call_001'') = Some AppointmentType
       \<and> map_option step (st' ''call_001'') = Some ProviderSelection
       \<and> map_option (length \<circ> conversationHistory) (st' ''call_001'') =
           map_option (Suc \<circ> length \<circ> conversationHistory) (st ''call_001'')
       \<and> st' ''call_001'' \<noteq> st ''call_001'')"
proof -
  obtain s where s: "afterTurns defaultConfig 2 ''call_001'' = Some s" "step s = AppointmentType"
    using booking_2 by blast
  have named: "detectAppointmentType ''I need a follow-up'' = Some FollowUp"
    by code_simp
  have thrown: "getAvailableProviders defaultConfig (Some FollowUp) = Inl TypeError"
    by (simp add: getAvailableProviders_def defaultConfig_def)
  have "s\<lparr>step := ProviderSelection, appointmentType := Some FollowUp,
          lastActivity := tUpdate (turnAt 4000),
          conversationHistory := conversationHistory s @
            [\<lparr>entryRole = User, entryContent = ''I need a follow-up'',
              entryTimestamp = tUser (turnAt 4000)\<rparr>]\<rparr> \<noteq> s"
    using s(2) by (cases s) auto
  then show ?thesis
    using appointment_type_throws [where st = "afterTurns defaultConfig 2"
        and cid = "''call_001''" and lib = calendar and e = "turnAt 4000",
        OF s(1) s(2) named thrown] s
    by (simp add: Let_def)
qed

section \<open>Insurance\<close>

lemma selfPay_never_offered:
  assumes "dispatch cfg lib e InsuranceVerification st cid m = (Inr r, st')"
  shows "selfPayOption r = None"
proof (cases "extractInsuranceInfo m")
  case None
  then show ?thesis
    using assms by (auto simp add: handleInsuranceVerification_def falsy_def reply_def)
next
  case (Some i)
  then have "isAcceptedInsurance i \<and> i \<noteq> []"
    by (intro accepted_isAcceptedInsurance extractInsuranceInfo_accepted)
  then show ?thesis
    using assms Some
    by (auto simp add: handleInsuranceVerification_def falsy_def reply_def nullable_def
          simulateInsuranceVerification_def Let_def getConversationState_def
        split: option.splits)
qed

text \<open>
  C3 fails on the code. The booking call is at step insurance_verification and the caller
  says \<open>I have Humana insurance\<close>, naming an insurer that is not accepted. The extractor
  finds no insurer, since it looks for the accepted names only, and the handler asks again
  with the list of accepted insurers: the response has no \<open>selfPayOption\<close>. The step stays
  insurance_verification.
\<close>

theorem unaccepted_insurer_no_selfPay:
  "(let st = afterTurns documentedConfig 6;
        (r, st') = processMessage documentedConfig calendar (turnAt 8000) st ''call_001''
                     ''I have Humana insurance''
    in map_option step (st ''call_001'') = Some InsuranceVerification
       \<and> extractInsuranceInfo ''I have Humana insurance'' = None
       \<and> selfPayOption r = None
       \<and> options r = Some insurerOptions
       \<and> nextStep r = InsuranceVerification
       \<and> map_option step (st' ''call_001'') = Some InsuranceVerification)"
proof -
  obtain s where s: "afterTurns documentedConfig 6 ''call_001'' = Some s"
      "step s = InsuranceVerification"
    using booking_6 by blast
  have unknown: "extractInsuranceInfo ''I have Humana insurance'' = None"
    by code_simp
  show ?thesis
    using s unknown
    by (simp add: Let_def processMessage_existing handleInsuranceVerification_def falsy_def
          reply_def addToHistory_apply)
qed

section \<open>Time selection\<close>

text \<open>
  C4 as the code has it. At step time_selection, when the utterance yields a time and the
  availability check succeeds, the handler stores the time as preferredTime, advances the
  step to insurance_verification and refreshes lastActivity; nothing else in the stored
  record changes, so its selectedSlot stays as it was. The slot (provider, date, time,
  type) is returned in the response.
\<close>

theorem time_selection_stores_time:
  assumes "st cid = Some s" and "step s = TimeSelection"
    and "detectTimeSelection m = Some t" and "t \<noteq> []" and "checkTimeAvailability e"
  shows "\<exists>r. dispatch cfg lib e (step s) st cid m =
           (Inr r, st(cid \<mapsto> s\<lparr>step := InsuranceVerification, preferredTime := Some t,
                         lastActivity := tUpdate e\<rparr>))
         \<and> nextStep r = InsuranceVerification
         \<and> respSelectedSlot r =
             Some \<lparr>slotProvider = preferredProvider s, slotDate = preferredDate s,
                   slotTime = t, slotType = appointmentType s\<rparr>"
  using assms
  by (cases s)
     (simp add: handleTimeSelection_def getConversationState_def falsy_def nullable_def
        updateConversationState_def assign_def noUpdates_def reply_def Let_def)

theorem time_selection_stores_time_witness:
  "\<exists>s r. afterTurns documentedConfig 5 ''call_001'' = Some s
     \<and> dispatch documentedConfig calendar (turnAt 7000) TimeSelection
          (afterTurns documentedConfig 5) ''call_001'' ''10:30 please'' =
        (Inr r, (afterTurns documentedConfig 5)
                  (''call_001'' \<mapsto> s\<lparr>step := InsuranceVerification,
                     preferredTime := Some ''10:30'',
                     lastActivity := tUpdate (turnAt 7000)\<rparr>))
     \<and> nextStep r = InsuranceVerification"
proof -
  obtain s where s: "afterTurns documentedConfig 5 ''call_001'' = Some s"
      "step s = TimeSelection"
    using booking_5 by blast
  have said: "detectTimeSelection ''10:30 please'' = Some ''10:30''"
    by code_simp
  have free: "checkTimeAvailability (turnAt 7000)"
    by (simp add: checkTimeAvailability_def turnAt_def)
  show ?thesis
    using time_selection_stores_time [where st = "afterTurns documentedConfig 5"
        and cid = "''call_001''" and cfg = documentedConfig and lib = calendar,
        OF s(1) s(2) said _ free] s
    by auto
qed

text \<open>
  C4 as stated fails: in the booking call, the turn at step time_selection with the
  utterance \<open>10:30 please\<close> and a free slot stores preferredTime and the next step, and
  the stored selectedSlot is still \<open>null\<close>.
\<close>

theorem time_selection_leaves_selectedSlot:
  "(let st = afterTurns documentedConfig 5;
        (r, st') = processMessage documentedConfig calendar (turnAt 7000) st ''call_001''
                     ''10:30 please''
    in map_option step (st ''call_001'') = Some TimeSelection
       \<and> detectTimeSelection ''10:30 please'' = Some ''10:30''
       \<and> checkTimeAvailability (turnAt 7000)
       \<and> map_option step (st' ''call_001'') = Some InsuranceVerification
       \<and> map_option preferredTime (st' ''call_001'') = Some (Some ''10:30'')
       \<and> map_option selectedSlot (st' ''call_001'') = Some None)"
proof -
  obtain s where s: "afterTurns documentedConfig 5 ''call_001'' = Some s"
      "step s = TimeSelection" "selectedSlot s = None"
    using booking_5 by blast
  have said: "detectTimeSelection ''10:30 please'' = Some ''10:30''"
    by code_simp
  have free: "checkTimeAvailability (turnAt 7000)"
    by (simp add: checkTimeAvailability_def turnAt_def)
  have understood: "\<not> falsy (detectTimeSelection ''10:30 please'')"
    using said by (simp add: falsy_def)
  show ?thesis
    using time_selection_advances [where st = "afterTurns documentedConfig 5"
        and cid = "''call_001''" and cfg = documentedConfig and lib = calendar,
        OF s(1) s(2) understood free] s said free
    by (simp add: Let_def case_prod_unfold)
qed

section \<open>Slots\<close>

lemma minuteLoop_quarters:
  "minuteLoop hour 0 =
     [timeString hour 0, timeString hour 15, timeString hour 30, timeString hour 45]"
  by (simp add: minuteLoop.simps)

text \<open>
  What holds of the slots at the granularity of hours: each is a quarter of an hour \<open>h\<close>
  with \<open>startHour \<le> h < endHour\<close> that is not in the lunch break.
\<close>

lemma hourLoop_slots:
  assumes "t \<in> set (hourLoop lunchStart lunchEnd startHour endHour)"
  shows "\<exists>h mi. t = timeString h mi \<and> startHour \<le> h \<and> h < endHour
           \<and> \<not> inLunch lunchStart lunchEnd h \<and> mi \<in> {0, 15, 30, 45}"
  using assms
proof (induction lunchStart lunchEnd startHour endHour rule: hourLoop.induct)
  case (1 lunchStart lunchEnd hour endHour)
  show ?case
  proof (cases "hour < endHour")
    case False
    then show ?thesis
      using "1.prems" by (simp add: hourLoop.simps [of _ _ hour endHour])
  next
    case True
    show ?thesis
    proof (cases "inLunch lunchStart lunchEnd hour")
      case lunch: True
      then have "t \<in> set (hourLoop lunchStart lunchEnd (hour + 1) endHour)"
        using "1.prems" True by (simp add: hourLoop.simps [of _ _ hour endHour])
      then show ?thesis
        using "1.IH"(1) [OF True lunch] by force
    next
      case work: False
      then consider "t \<in> set (minuteLoop hour 0)"
        | "t \<in> set (hourLoop lunchStart lunchEnd (hour + 1) endHour)"
        using "1.prems" True by (auto simp add: hourLoop.simps [of _ _ hour endHour])
      then show ?thesis
      proof cases
        case 1
        then show ?thesis
          using True work by (auto simp add: minuteLoop_quarters)
      next
        case 2
        then show ?thesis
          using "1.IH"(2) [OF True work] by force
      qed
    qed
  qed
qed

text \<open>
  C5 fails on the code. With the schedules of the README, Charles Maddix works on Mondays
  from 10:30 to 18:00. For Monday 15 January 2024 \<open>getAvailableTimes\<close> returns the slots
  10:00 and 10:15, which lie before the start of his schedule: only the hour of the start
  is read. The lunch hour has no slot, and the last slot is 17:45.
\<close>

theorem slots_before_schedule_start:
  "getAvailableTimes documentedConfig calendar
     (Some \<lparr>provId = ''charles_maddix'', provName = ''Charles Maddix'',
            provSchedule = Some (weekdaysFrom ''10:30'')\<rparr>)
     (Some ''2024-01-15'') =
   Inr [''10:00'', ''10:15'', ''10:30'', ''10:45'', ''11:00'', ''11:15'', ''11:30'', ''11:45'',
        ''12:00'', ''12:15'', ''12:30'', ''12:45'', ''14:00'', ''14:15'', ''14:30'', ''14:45'',
        ''15:00'', ''15:15'', ''15:30'', ''15:45'', ''16:00'', ''16:15'', ''16:30'', ''16:45'',
        ''17:00'', ''17:15'', ''17:30'', ''17:45'']"
  by code_simp

section \<open>Insurance only after identity and slot\<close>

text \<open>
  C7. In every store reached from the empty one by starting calls, processing utterances
  and ending calls, a record whose insurance is verified has a verified client and a
  preferred provider, date and time.
\<close>

theorem insurance_after_identity_and_slot:
  assumes "run cfg lib evs cid = Some s" and "insuranceVerified s"
  shows "clientVerified s \<and> preferredProvider s \<noteq> None \<and> preferredDate s \<noteq> None
         \<and> preferredTime s \<noteq> None"
proof -
  have "flowInvariant s"
    using storeInvariant_run [of cfg lib evs] assms(1)
    unfolding storeInvariant_def by blast
  then show ?thesis
    using assms(2) by (auto simp add: flowInvariant_def falsy_def)
qed

theorem insurance_after_identity_and_slot_witness:
  "\<exists>s. run documentedConfig calendar bookingEvents ''call_001'' = Some s
     \<and> insuranceVerified s \<and> clientVerified s \<and> preferredProvider s \<noteq> None
     \<and> preferredDate s \<noteq> None \<and> preferredTime s \<noteq> None"
proof -
  obtain s where s: "run documentedConfig calendar bookingEvents ''call_001'' = Some s"
      "insuranceVerified s"
    using booking_8 by (auto simp add: run_bookingEvents)
  show ?thesis
    using insurance_after_identity_and_slot [OF s] s by blast
qed

section \<open>Two entries a turn\<close>

text \<open>
  C8. After a call is started, any \<open>n\<close> turns none of which throws leave a history of
  exactly \<open>2n\<close> entries: for each turn in order the utterance as a user entry and then the
  message of its response as an agent entry. A turn has thrown exactly when its response
  has nextStep error.
\<close>

theorem history_two_entries_per_turn:
  assumes "turns cfg lib cid (snd (initializeConversation st0 cid t0 t1)) ins = (rs, st')"
    and "\<forall>r\<in>set rs. nextStep r \<noteq> Error"
  shows "\<exists>s. st' cid = Some s
    \<and> conversationHistory s = transcript (zip ins rs)
    \<and> length (conversationHistory s) = 2 * length ins
    \<and> (\<forall>i < length (conversationHistory s).
          entryRole (conversationHistory s ! i) = (if even i then User else Agent))"
proof -
  let ?st = "snd (initializeConversation st0 cid t0 t1)"
  obtain s where s: "length rs = length ins" "st' cid = Some s"
      "conversationHistory s = transcript (zip ins rs)"
    using turns_history [where st = ?st and cid = cid, OF initializeConversation_apply assms]
    by (auto simp add: initializeConversation_fields)
  show ?thesis
    using s by (simp add: transcript_length transcript_roles)
qed

theorem history_two_entries_per_turn_witness:
  "\<exists>s. afterTurns documentedConfig 8 ''call_001'' = Some s
     \<and> step s = Completed
     \<and> conversationHistory s = transcript (zip booking (replies documentedConfig 8))
     \<and> length (conversationHistory s) = 16
     \<and> map entryRole (take 4 (conversationHistory s)) = [User, Agent, User, Agent]"
proof -
  have ran: "turns documentedConfig calendar ''call_001''
               (snd (initializeConversation Map.empty ''call_001'' 1000 1000)) booking =
             (replies documentedConfig 8, afterTurns documentedConfig 8)"
    by (simp add: replies_def afterTurns_def bookingStart_def take_booking)
  have valid: "\<forall>r\<in>set (replies documentedConfig 8). nextStep r \<noteq> Error"
    using booking_8 by (simp add: list_all_iff)
  have turns8: "length booking = 8"
    by (simp add: booking_def)
  obtain s where s: "afterTurns documentedConfig 8 ''call_001'' = Some s"
      "conversationHistory s = transcript (zip booking (replies documentedConfig 8))"
      "length (conversationHistory s) = 2 * length booking"
      "\<forall>i < length (conversationHistory s).
         entryRole (conversationHistory s ! i) = (if even i then User else Agent)"
    using history_two_entries_per_turn [OF ran valid] by blast
  have completed: "step s = Completed"
    using booking_8 s(1) by auto
  have first: "map entryRole (take 4 (conversationHistory s)) = [User, Agent, User, Agent]"
  proof -
    have "take 4 (conversationHistory s) =
            [conversationHistory s ! 0, conversationHistory s ! 1,
             conversationHistory s ! 2, conversationHistory s ! 3]"
      using s(3) turns8
      by (auto simp add: list_eq_iff_nth_eq nth_Cons' numeral_eq_Suc less_Suc_eq)
    then show ?thesis
      using s(3) s(4) turns8 by simp
  qed
  show ?thesis
    using s completed first turns8 by simp
qed

section \<open>Dates that are none\<close>

text \<open>
  C9. An utterance whose date-shaped part is no date of the calendar is accepted at step
  date_selection: the library makes an invalid moment of it, \<open>detectDateSelection\<close> returns
  the string \<open>Invalid date\<close>, which is not \<open>null\<close>, and the handler stores it as
  preferredDate and moves on to time_selection. \<open>13/45/2024\<close> is such a part.
\<close>

theorem invalid_date_is_stored:
  assumes "st cid = Some s" and "step s = DateSelection"
    and "matchFirst dateRegex m = Some d" and "parseDate lib d = None"
  shows "detectDateSelection lib m = Some ''Invalid date''
    \<and> (\<exists>s'. snd (processMessage cfg lib e st cid m) cid = Some s'
          \<and> preferredDate s' = Some ''Invalid date'' \<and> step s' = TimeSelection)"
proof -
  have detected: "detectDateSelection lib m = Some ''Invalid date''"
    using assms(3,4) by (simp add: detectDateSelection_def)
  then have "\<not> falsy (detectDateSelection lib m)"
    by (simp add: falsy_def)
  then show ?thesis
    using assms(1,2) detected
    by (auto simp add: processMessage_existing handleDateSelection_def
          getConversationState_def addToHistory_apply updateConversationState_apply
          assign_def noUpdates_def Let_def
        split: sum.splits)
qed

theorem invalid_date_is_stored_witness:
  "matchFirst dateRegex ''How about 13/45/2024?'' = Some ''13/45/2024''
   \<and> parseDate calendar ''13/45/2024'' = None
   \<and> detectDateSelection calendar ''How about 13/45/2024?'' = Some ''Invalid date''
   \<and> (\<exists>s'. snd (processMessage documentedConfig calendar (turnAt 6000)
                  (afterTurns documentedConfig 4) ''call_001'' ''How about 13/45/2024?'')
               ''call_001'' = Some s'
         \<and> preferredDate s' = Some ''Invalid date'' \<and> step s' = TimeSelection)"
proof -
  obtain s where s: "afterTurns documentedConfig 4 ''call_001'' = Some s"
      "step s = DateSelection"
    using booking_4 by blast
  have shaped: "matchFirst dateRegex ''How about 13/45/2024?'' = Some ''13/45/2024''"
    by code_simp
  have invalid: "parseDate calendar ''13/45/2024'' = None"
    by code_simp
  show ?thesis
    using invalid_date_is_stored [where st = "afterTurns documentedConfig 4"
        and cid = "''call_001''" and cfg = documentedConfig and e = "turnAt 6000",
        OF s(1) s(2) shaped invalid] shaped invalid
    by simp
qed

end
